theory Spec2Isabelle
  imports Main
begin

section \<open>LazyLoad: the retry orchestrator of react-lazy-retry\<close>

text \<open>
  A shallow embedding of \<^verbatim>\<open>src/LazyLoad.tsx\<close>. The component is event driven: the
  functions of the source are state transformers on a record that holds what the
  component's refs, React state and closures hold, and every call the source makes into
  its host (console, \<^verbatim>\<open>window.setTimeout\<close>, \<^verbatim>\<open>clearTimeout\<close>, the state setters, the
  loader \<^verbatim>\<open>importFn\<close>, the callbacks \<^verbatim>\<open>onError\<close> and \<^verbatim>\<open>onRetry\<close>) is appended to a trace, in
  the order the source makes it. The numbers \<^verbatim>\<open>retries\<close> and \<^verbatim>\<open>retryDelay\<close> are integers.
\<close>

subsection \<open>The resource handle\<close>

text \<open>
  An error the handle is rejected with is either the loader's own (\<open>Thrown\<close>) or the
  one the source builds, \<^verbatim>\<open>new Error("Import cancelled due to component unmount")\<close>.
\<close>

datatype 'e failure = Thrown 'e | ImportCancelled

text \<open>
  What the promise returned by \<^verbatim>\<open>importFn()\<close> is rejected with: \<^verbatim>\<open>undefined\<close> or \<^verbatim>\<open>null\<close>
  (\<open>Nullish\<close>), for which reading \<^verbatim>\<open>error.message\<close> throws a \<^verbatim>\<open>TypeError\<close>, or any other
  value (\<open>Reason\<close>), whose \<^verbatim>\<open>message\<close> can be read.
\<close>

datatype 'e reason = Nullish | Reason 'e

text \<open>
  The handle is the \<^verbatim>\<open>Promise\<close> of line 124. \<open>resolve\<close> and \<open>reject\<close> are the two
  functions JavaScript hands to the promise's executor: they settle a pending promise and
  do nothing to a settled one.
\<close>

datatype ('v, 'e) promise = Pending | Resolved 'v | Rejected "'e failure"

definition resolve :: "'v \<Rightarrow> ('v, 'e) promise \<Rightarrow> ('v, 'e) promise" where
  "resolve v p = (case p of Pending \<Rightarrow> Resolved v | Resolved w \<Rightarrow> Resolved w | Rejected e \<Rightarrow> Rejected e)"

definition reject :: "'e failure \<Rightarrow> ('v, 'e) promise \<Rightarrow> ('v, 'e) promise" where
  "reject x p = (case p of Pending \<Rightarrow> Rejected x | Resolved w \<Rightarrow> Resolved w | Rejected e \<Rightarrow> Rejected e)"

subsection \<open>Props, effects and state\<close>

text \<open>
  The props of \<^verbatim>\<open>LazyLoadProps\<close> that the state machine reads. \<open>onError\<close> and \<open>onRetry\<close>
  say whether the optional callback was given (\<^verbatim>\<open>onError?.(...)\<close> calls it only then).
\<close>

record props =
  retries :: int
  retryDelay :: int
  verbose :: bool
  onError :: bool
  onRetry :: bool

text \<open>
  The numbers are integers, held in doubles. The counter \<^verbatim>\<open>attempts\<close> is a natural number
  (a double counts exactly up to \<open>2 ^ 53\<close>). The product \<^verbatim>\<open>retryDelay * attempts\<close> is a
  multiplication of doubles: the exact product rounded to the nearest double, ties to the
  even mantissa, and an infinity beyond the largest double. \<open>to_double\<close> is that rounding
  of an integer; an integer of magnitude at most \<open>2 ^ 53\<close> is a double itself.
\<close>

datatype number = Finite int | Infinity | MinusInfinity

function bit_length :: "int \<Rightarrow> nat" where
  "bit_length n = (if n \<le> 0 then 0 else Suc (bit_length (n div 2)))"
  by pat_completeness auto
termination
  by (relation "measure nat") auto

declare bit_length.simps [simp del]

definition to_double :: "int \<Rightarrow> number" where
  "to_double m =
     (let n = \<bar>m\<bar> in
      if n \<le> 2 ^ 53 then Finite m
      else
        let ulp = 2 ^ (bit_length n - 53);
            q = n div ulp;
            r = n mod ulp;
            q' = (if 2 * r < ulp then q
                  else if ulp < 2 * r then q + 1
                  else if even q then q else q + 1);
            v = q' * ulp
        in if 2 ^ 1024 \<le> v then (if m < 0 then MinusInfinity else Infinity)
           else Finite (if m < 0 then - v else v))"

definition times :: "int \<Rightarrow> nat \<Rightarrow> number" where
  "times x n = to_double (x * int n)"

datatype level = Info | Err

text \<open>The lines the source logs, in the order of their first appearance in the file.\<close>

datatype 'e message =
    Unmounted
  | Creating nat
  | AttemptFailed nat int 'e
  | RetryingIn number
  | LazyLoadError "'e failure"
  | ComponentStack string
  | Forcing
  | RetryingLoading
  | Remounting nat

text \<open>
  The calls into the host. \<open>ImportFn k\<close>: the loader instance \<open>k\<close> calls \<^verbatim>\<open>importFn()\<close>.
  \<open>SetTimeout t k d\<close>: \<^verbatim>\<open>window.setTimeout\<close> returned the id \<open>t\<close> for a timeout of \<open>d\<close>
  milliseconds whose callback is \<^verbatim>\<open>tryImport\<close> of instance \<open>k\<close>.
\<close>

datatype 'e effect =
    Console level "'e message"
  | ImportFn nat
  | SetTimeout nat nat number
  | ClearTimeout nat
  | SetRetryKey
  | SetMountKey
  | OnError "'e failure" string
  | OnRetry

text \<open>
  A loader instance is what one run of the promise executor (lines 124 to 169) owns:
  its two local variables and its promise. \<open>inflight\<close> counts the promises returned by
  \<^verbatim>\<open>importFn()\<close> that have not settled yet; it belongs to the host and the source never
  reads it.
\<close>

record ('v, 'e) loader_instance =
  attempts :: nat
  currentAttemptCancelled :: bool
  promise :: "('v, 'e) promise"
  inflight :: nat

text \<open>The two updaters the source passes to the state setters, both \<^verbatim>\<open>prev => prev + 1\<close>.\<close>

datatype update = IncRetryKey | IncMountKey

text \<open>
  \<open>mountKey\<close>, \<open>retryKey\<close>: the React state (lines 74, 75); \<open>queued\<close>: the updates React
  has been given and not applied yet. \<open>timersRef\<close> is the \<^verbatim>\<open>Set<number>\<close> of line 76, in
  insertion order; \<open>isMountedRef\<close> is line 77. \<open>window_timers\<close> is the host's table of
  pending timeouts (id and the instance whose \<^verbatim>\<open>tryImport\<close> the timeout calls), and
  \<open>next_timer\<close> the id the host gives out next. \<open>instances\<close> holds every loader instance
  created so far. \<open>lazyComponent\<close> is the instance whose promise the current
  \<^verbatim>\<open>LazyComponent\<close> of line 117 holds, \<open>None\<close> as long as React has not called the function
  given to \<^verbatim>\<open>React.lazy\<close>. \<open>boundaryError\<close> is the error the \<^verbatim>\<open>ErrorBoundary\<close> of line 276 has
  caught and shows, and \<open>reactStack\<close> the component stack React reports with a caught
  error.
\<close>

record ('v, 'e) state =
  mountKey :: nat
  retryKey :: nat
  queued :: "update list"
  timersRef :: "nat list"
  isMountedRef :: bool
  window_timers :: "(nat \<times> nat) list"
  next_timer :: nat
  instances :: "('v, 'e) loader_instance list"
  lazyComponent :: "nat option"
  boundaryError :: "'e failure option"
  reactStack :: string
  trace :: "'e effect list"

definition emit :: "'e effect \<Rightarrow> ('v, 'e) state \<Rightarrow> ('v, 'e) state" where
  "emit x s = s\<lparr>trace := trace s @ [x]\<rparr>"

subsection \<open>Logging and the timer registry (lines 59 to 114)\<close>

definition log :: "props \<Rightarrow> level \<Rightarrow> 'e message \<Rightarrow> ('v, 'e) state \<Rightarrow> ('v, 'e) state" where
  "log p l m s = (if \<not> verbose p then s else emit (Console l m) s)"

text \<open>
  \<^verbatim>\<open>createSafeTimeout(callback, delay)\<close>. The only callback the source ever passes is
  \<^verbatim>\<open>tryImport\<close> of a loader instance, so the callback is given by the instance's number.
\<close>

definition createSafeTimeout :: "nat \<Rightarrow> number \<Rightarrow> ('v, 'e) state \<Rightarrow> ('v, 'e) state" where
  "createSafeTimeout k delay s =
     (if \<not> isMountedRef s then s
      else let timerId = next_timer s in
        s\<lparr>window_timers := window_timers s @ [(timerId, k)],
          next_timer := Suc timerId,
          trace := trace s @ [SetTimeout timerId k delay],
          timersRef := (if timerId \<in> set (timersRef s) then timersRef s
                        else timersRef s @ [timerId])\<rparr>)"

text \<open>
  \<^verbatim>\<open>clearAllTimers\<close>: \<^verbatim>\<open>clearTimeout\<close> on every id of the set, which takes it out of the
  host's table, then \<^verbatim>\<open>timersRef.current.clear()\<close>.
\<close>

definition clearAllTimers :: "('v, 'e) state \<Rightarrow> ('v, 'e) state" where
  "clearAllTimers s =
     s\<lparr>window_timers := filter (\<lambda>tk. fst tk \<notin> set (timersRef s)) (window_timers s),
       trace := trace s @ map ClearTimeout (timersRef s),
       timersRef := []\<rparr>"

text \<open>The cleanup of the effect of lines 106 to 114.\<close>

definition mounted_effect_cleanup :: "props \<Rightarrow> ('v, 'e) state \<Rightarrow> ('v, 'e) state" where
  "mounted_effect_cleanup p s = log p Info Unmounted (clearAllTimers (s\<lparr>isMountedRef := False\<rparr>))"

subsection \<open>The loader instance (lines 123 to 170)\<close>

definition update_instance ::
  "nat \<Rightarrow> (('v, 'e) loader_instance \<Rightarrow> ('v, 'e) loader_instance) \<Rightarrow> ('v, 'e) state \<Rightarrow> ('v, 'e) state" where
  "update_instance k f s = s\<lparr>instances := (instances s)[k := f (instances s ! k)]\<rparr>"

definition settle ::
  "nat \<Rightarrow> (('v, 'e) promise \<Rightarrow> ('v, 'e) promise) \<Rightarrow> ('v, 'e) state \<Rightarrow> ('v, 'e) state" where
  "settle k f s = update_instance k (\<lambda>i. i\<lparr>promise := f (promise i)\<rparr>) s"

text \<open>\<^verbatim>\<open>tryImport\<close> up to the call of \<^verbatim>\<open>importFn()\<close>, for the instance \<open>k\<close>.\<close>

definition tryImport :: "props \<Rightarrow> nat \<Rightarrow> ('v, 'e) state \<Rightarrow> ('v, 'e) state" where
  "tryImport p k s =
     (if currentAttemptCancelled (instances s ! k) \<or> \<not> isMountedRef s
      then settle k (reject ImportCancelled) s
      else emit (ImportFn k) (update_instance k (\<lambda>i. i\<lparr>inflight := Suc (inflight i)\<rparr>) s))"

text \<open>The \<^verbatim>\<open>.then\<close> handler of lines 135 to 139.\<close>

definition onFulfilled :: "props \<Rightarrow> nat \<Rightarrow> 'v \<Rightarrow> ('v, 'e) state \<Rightarrow> ('v, 'e) state" where
  "onFulfilled p k module s =
     (if \<not> currentAttemptCancelled (instances s ! k) \<and> isMountedRef s
      then settle k (resolve module) s
      else s)"

text \<open>
  The \<^verbatim>\<open>.catch\<close> handler of lines 140 to 161. The arguments of the \<^verbatim>\<open>log\<close> call of line 147
  are evaluated before \<^verbatim>\<open>log\<close> tests \<^verbatim>\<open>verbose\<close>: for a nullish error \<^verbatim>\<open>error.message\<close>
  throws, and the handler ends there, after \<^verbatim>\<open>attempts++\<close>. The exception goes to the promise
  that \<^verbatim>\<open>.catch\<close> returned, which nobody holds.
\<close>

definition onRejected :: "props \<Rightarrow> nat \<Rightarrow> 'e reason \<Rightarrow> ('v, 'e) state \<Rightarrow> ('v, 'e) state" where
  "onRejected p k error s =
     (if currentAttemptCancelled (instances s ! k) \<or> \<not> isMountedRef s
      then settle k (reject ImportCancelled) s
      else
        let s1 = update_instance k (\<lambda>i. i\<lparr>attempts := Suc (attempts i)\<rparr>) s;
            a = attempts (instances s1 ! k)
        in case error of
             Nullish \<Rightarrow> s1
           | Reason e \<Rightarrow>
               let s2 = log p Info (AttemptFailed a (retries p) e) s1
               in if retries p \<le> int a
                  then settle k (reject (Thrown e)) s2
                  else
                    let delay = times (retryDelay p) a;
                        s3 = log p Info (RetryingIn delay) s2
                    in createSafeTimeout k delay s3)"

text \<open>
  The function given to \<^verbatim>\<open>window.setTimeout\<close> (lines 85 to 91), for the timer \<open>timerId\<close>
  whose callback is \<^verbatim>\<open>tryImport\<close> of instance \<open>k\<close>.
\<close>

definition timeout_handler :: "props \<Rightarrow> nat \<Rightarrow> nat \<Rightarrow> ('v, 'e) state \<Rightarrow> ('v, 'e) state" where
  "timeout_handler p timerId k s =
     (let s1 = s\<lparr>timersRef := removeAll timerId (timersRef s)\<rparr>
      in if isMountedRef s1 then tryImport p k s1 else s1)"

text \<open>
  The promise executor (lines 124 to 169): a new instance with \<^verbatim>\<open>attempts = 0\<close> and
  \<^verbatim>\<open>currentAttemptCancelled = false\<close>, then \<^verbatim>\<open>tryImport()\<close>. The executor ends with
  \<^verbatim>\<open>return () => { currentAttemptCancelled = true; }\<close>; a promise constructor ignores
  what its executor returns, so this function is never called and nothing in the source
  assigns \<^verbatim>\<open>currentAttemptCancelled\<close> again.
\<close>

definition executor :: "props \<Rightarrow> ('v, 'e) state \<Rightarrow> ('v, 'e) state" where
  "executor p s =
     tryImport p (length (instances s))
       (s\<lparr>instances := instances s @
            [\<lparr>attempts = 0, currentAttemptCancelled = False, promise = Pending, inflight = 0\<rparr>]\<rparr>)"

subsection \<open>The recovery bridge (lines 180 to 214)\<close>

definition handleError :: "props \<Rightarrow> 'e failure \<Rightarrow> string \<Rightarrow> ('v, 'e) state \<Rightarrow> ('v, 'e) state" where
  "handleError p error componentStack s =
     (let s1 = log p Err (LazyLoadError error) s;
          s2 = log p Err (ComponentStack componentStack) s1
      in if onError p then emit (OnError error componentStack) s2 else s2)"

text \<open>
  The two state setters, as the source calls them: with the updater \<^verbatim>\<open>prev => prev + 1\<close>.
  React queues the updater and applies it at the next render; the calls come from an
  event handler or from the boundary, where React batches them.
\<close>

definition setRetryKey :: "('v, 'e) state \<Rightarrow> ('v, 'e) state" where
  "setRetryKey s = emit SetRetryKey (s\<lparr>queued := queued s @ [IncRetryKey]\<rparr>)"

definition setMountKey :: "('v, 'e) state \<Rightarrow> ('v, 'e) state" where
  "setMountKey s = emit SetMountKey (s\<lparr>queued := queued s @ [IncMountKey]\<rparr>)"

definition retryLazyComponent :: "props \<Rightarrow> ('v, 'e) state \<Rightarrow> ('v, 'e) state" where
  "retryLazyComponent p s = setRetryKey (clearAllTimers (log p Info Forcing s))"

definition handleReset :: "props \<Rightarrow> ('v, 'e) state \<Rightarrow> ('v, 'e) state" where
  "handleReset p s =
     (let s1 = log p Info RetryingLoading s;
          s2 = retryLazyComponent p s1;
          s3 = setMountKey s2
      in if onRetry p then emit OnRetry s3 else s3)"

text \<open>
  \<^verbatim>\<open>handleRetry\<close> (lines 224 to 227), the reset trigger handed to the error view. Its
  second call is the \<^verbatim>\<open>resetErrorBoundary\<close> that the failure boundary passes to
  \<^verbatim>\<open>fallbackRender\<close>; it is a parameter here.
\<close>

definition handleRetry ::
  "props \<Rightarrow> (('v, 'e) state \<Rightarrow> ('v, 'e) state) \<Rightarrow> ('v, 'e) state \<Rightarrow> ('v, 'e) state" where
  "handleRetry p resetErrorBoundary s = resetErrorBoundary (handleReset p s)"

subsection \<open>The fallback views (lines 217 to 273)\<close>

text \<open>
  What the source can tell about the value given as \<^verbatim>\<open>loadingComponent\<close> or
  \<^verbatim>\<open>errorComponent\<close>: it is falsy (\<open>Unset\<close>), or \<^verbatim>\<open>React.isValidElement\<close> holds of it
  (\<open>Instance\<close>), or its \<^verbatim>\<open>typeof\<close> is \<^verbatim>\<open>"function"\<close> (\<open>Factory\<close>), or none of these (\<open>Other\<close>).
\<close>

datatype 'c override = Unset | Instance 'c | Factory 'c | Other 'c

text \<open>
  The React elements the two resolvers return. \<open>ErrorProps\<close> are the props \<^verbatim>\<open>error\<close> and
  \<^verbatim>\<open>resetErrorBoundary\<close>; the second is a function on the component's state.
  \<open>Cloned el props\<close> is \<^verbatim>\<open>React.cloneElement(el, props)\<close>, \<open>Create f props\<close> is the element
  \<^verbatim>\<open><f {...props} />\<close>, \<open>AsIs\<close> is the given value itself.
\<close>

datatype ('x, 's) element_props = NoProps | ErrorProps 'x "'s \<Rightarrow> 's"

datatype ('c, 'x, 's) view =
    DefaultLoadingAnimation
  | DefaultErrorComponent "('x, 's) element_props"
  | AsIs 'c
  | Cloned 'c "('x, 's) element_props"
  | Create 'c "('x, 's) element_props"

definition ErrorFallback ::
  "props \<Rightarrow> 'c override \<Rightarrow> 'x \<Rightarrow> (('v, 'e) state \<Rightarrow> ('v, 'e) state) \<Rightarrow>
     ('c, 'x, ('v, 'e) state) view" where
  "ErrorFallback p errorComponent error resetErrorBoundary =
     (let retry = handleRetry p resetErrorBoundary in
      case errorComponent of
        Instance el \<Rightarrow> Cloned el (ErrorProps error retry)
      | Factory f \<Rightarrow> Create f (ErrorProps error retry)
      | Other x \<Rightarrow> AsIs x
      | Unset \<Rightarrow> DefaultErrorComponent (ErrorProps error retry))"

definition renderLoadingComponent :: "'c override \<Rightarrow> ('c, 'x, 's) view" where
  "renderLoadingComponent loadingComponent =
     (case loadingComponent of
        Unset \<Rightarrow> DefaultLoadingAnimation
      | Instance el \<Rightarrow> AsIs el
      | Factory f \<Rightarrow> Create f NoProps
      | Other x \<Rightarrow> AsIs x)"

text \<open>The props a view was given, and calling the reset trigger among them.\<close>

fun props_of :: "('c, 'x, 's) view \<Rightarrow> ('x, 's) element_props" where
  "props_of DefaultLoadingAnimation = NoProps"
| "props_of (DefaultErrorComponent ps) = ps"
| "props_of (AsIs x) = NoProps"
| "props_of (Cloned el ps) = ps"
| "props_of (Create f ps) = ps"

fun pull_trigger :: "('x, 's) element_props \<Rightarrow> 's \<Rightarrow> 's" where
  "pull_trigger NoProps s = s"
| "pull_trigger (ErrorProps error resetErrorBoundary) s = resetErrorBoundary s"

fun error_shown :: "('x, 's) element_props \<Rightarrow> 'x option" where
  "error_shown NoProps = None"
| "error_shown (ErrorProps error resetErrorBoundary) = Some error"

subsection \<open>The host: React, the failure boundary, timers and the loader's promises\<close>

text \<open>
  What React and the \<^verbatim>\<open>ErrorBoundary\<close> of \<^verbatim>\<open>react-error-boundary\<close> (version 4 and later)
  do with the component, as far as the state machine sees it. The props \<^verbatim>\<open>retries\<close>,
  \<^verbatim>\<open>retryDelay\<close>, \<^verbatim>\<open>verbose\<close> and the two callbacks stay the same during a run; the
  identity of \<^verbatim>\<open>importFn\<close> may change.

  A state update is applied at the next render, in the order of the calls; the updater of
  \<^verbatim>\<open>setMountKey\<close> logs when it runs.
\<close>

definition apply_update :: "props \<Rightarrow> update \<Rightarrow> ('v, 'e) state \<Rightarrow> ('v, 'e) state" where
  "apply_update p u s =
     (case u of
        IncRetryKey \<Rightarrow> s\<lparr>retryKey := retryKey s + 1\<rparr>
      | IncMountKey \<Rightarrow>
          (let newKey = mountKey s + 1 in (log p Info (Remounting newKey) s)\<lparr>mountKey := newKey\<rparr>))"

text \<open>
  The factory of \<^verbatim>\<open>useMemo\<close> (lines 117 to 171): it logs and calls \<^verbatim>\<open>React.lazy\<close>, which
  returns a new lazy component and does not call the function it is given. React calls
  that function, which runs the promise executor, when it first renders the lazy
  component.
\<close>

definition useMemo_factory :: "props \<Rightarrow> ('v, 'e) state \<Rightarrow> ('v, 'e) state" where
  "useMemo_factory p s = (log p Info (Creating (retryKey s)) s)\<lparr>lazyComponent := None\<rparr>"

definition lazy_init :: "props \<Rightarrow> ('v, 'e) state \<Rightarrow> ('v, 'e) state" where
  "lazy_init p s = (executor p s)\<lparr>lazyComponent := Some (length (instances s))\<rparr>"

text \<open>
  The boundary catches an error thrown while its children render: it keeps the error,
  shows \<^verbatim>\<open>fallbackRender\<close> from then on, and calls its \<^verbatim>\<open>onError\<close> prop, which is
  \<open>handleError\<close> (line 278), once.
\<close>

definition boundary_catches :: "props \<Rightarrow> 'e failure \<Rightarrow> ('v, 'e) state \<Rightarrow> ('v, 'e) state" where
  "boundary_catches p error s =
     handleError p error (reactStack s) (s\<lparr>boundaryError := Some error\<rparr>)"

text \<open>
  Rendering lines 276 to 287. A boundary that holds an error renders the error view and
  not its children. Otherwise the lazy component is rendered: a new one is started; a
  pending one leaves the loading view of \<^verbatim>\<open>Suspense\<close>; a rejected one throws what its
  promise was rejected with; a resolved one renders the loaded component, which throws
  \<open>x\<close> when \<open>thrown\<close> is \<open>Some x\<close>.
\<close>

definition render_children :: "props \<Rightarrow> 'e option \<Rightarrow> ('v, 'e) state \<Rightarrow> ('v, 'e) state" where
  "render_children p thrown s =
     (case boundaryError s of
        Some held \<Rightarrow> s
      | None \<Rightarrow>
          (case lazyComponent s of
             None \<Rightarrow> lazy_init p s
           | Some k \<Rightarrow>
               (case promise (instances s ! k) of
                  Pending \<Rightarrow> s
                | Resolved module \<Rightarrow>
                    (case thrown of None \<Rightarrow> s | Some x \<Rightarrow> boundary_catches p (Thrown x) s)
                | Rejected error \<Rightarrow> boundary_catches p error s)))"

text \<open>
  The boundary's \<^verbatim>\<open>componentDidUpdate\<close>: when it held an error before the update, still
  holds one and its \<^verbatim>\<open>resetKeys\<close> (line 280) have changed, it calls its \<^verbatim>\<open>onReset\<close> prop,
  which is \<open>handleReset\<close> (line 279), and drops the error.
\<close>

definition componentDidUpdate ::
  "props \<Rightarrow> bool \<Rightarrow> bool \<Rightarrow> ('v, 'e) state \<Rightarrow> ('v, 'e) state" where
  "componentDidUpdate p held keysChanged s =
     (if held \<and> boundaryError s \<noteq> None \<and> keysChanged
      then (handleReset p s)\<lparr>boundaryError := None\<rparr>
      else s)"

text \<open>
  The \<^verbatim>\<open>resetErrorBoundary\<close> that the boundary passes to \<^verbatim>\<open>fallbackRender\<close>: when the
  boundary holds an error it calls \<^verbatim>\<open>onReset\<close> and drops the error.
\<close>

definition resetErrorBoundary :: "props \<Rightarrow> ('v, 'e) state \<Rightarrow> ('v, 'e) state" where
  "resetErrorBoundary p s =
     (case boundaryError s of
        None \<Rightarrow> s
      | Some held \<Rightarrow> (handleReset p s)\<lparr>boundaryError := None\<rparr>)"

text \<open>
  One render and its commit. The queued updates are applied; \<^verbatim>\<open>useMemo\<close> runs its factory
  again when \<^verbatim>\<open>retryKey\<close> has changed or when \<open>depsChanged\<close> says that another of its
  dependencies has (\<^verbatim>\<open>importFn\<close>); the children are rendered; the commit runs the
  boundary's \<^verbatim>\<open>componentDidUpdate\<close> and then, when \<^verbatim>\<open>retryKey\<close> has changed, the cleanup of
  the effect of lines 173 to 177.
\<close>

definition render_with ::
  "props \<Rightarrow> bool \<Rightarrow> 'e option \<Rightarrow> ('v, 'e) state \<Rightarrow> ('v, 'e) state" where
  "render_with p depsChanged thrown s =
     (let s1 = foldl (\<lambda>t u. apply_update p u t) (s\<lparr>queued := []\<rparr>) (queued s);
          rekeyed = (retryKey s1 \<noteq> retryKey s);
          keysChanged = (rekeyed \<or> mountKey s1 \<noteq> mountKey s);
          s2 = (if rekeyed \<or> depsChanged then useMemo_factory p s1 else s1);
          s3 = render_children p thrown s2;
          s4 = componentDidUpdate p (boundaryError s \<noteq> None) keysChanged s3
      in if rekeyed then clearAllTimers s4 else s4)"

definition render :: "props \<Rightarrow> ('v, 'e) state \<Rightarrow> ('v, 'e) state" where
  "render p s = render_with p False None s"

text \<open>
  The first render and the effect of lines 106 to 114. React's component stack is the
  empty string here; the state machine never reads it.
\<close>

definition initial :: "('v, 'e) state" where
  "initial = \<lparr>mountKey = 0, retryKey = 0, queued = [], timersRef = [], isMountedRef = True,
     window_timers = [], next_timer = 1, instances = [], lazyComponent = None,
     boundaryError = None, reactStack = [], trace = []\<rparr>"

definition mount :: "props \<Rightarrow> ('v, 'e) state" where
  "mount p = (render_children p None (useMemo_factory p initial))\<lparr>isMountedRef := True\<rparr>"

text \<open>Unmounting runs the cleanups of both effects, in the order of their declaration.\<close>

definition unmount :: "props \<Rightarrow> ('v, 'e) state \<Rightarrow> ('v, 'e) state" where
  "unmount p s = clearAllTimers (mounted_effect_cleanup p s)"

text \<open>
  A pending timeout fires: the host takes it out of its table and calls the function it
  was given. A timeout that is not in the table (never set, fired or cleared) cannot fire.
\<close>

definition fire :: "props \<Rightarrow> nat \<Rightarrow> ('v, 'e) state \<Rightarrow> ('v, 'e) state" where
  "fire p t s =
     (case map_of (window_timers s) t of
        None \<Rightarrow> s
      | Some k \<Rightarrow>
          timeout_handler p t k
            (s\<lparr>window_timers := filter (\<lambda>tk. fst tk \<noteq> t) (window_timers s)\<rparr>))"

text \<open>
  A promise returned by \<^verbatim>\<open>importFn()\<close> to instance \<open>k\<close> settles: the host runs the handler
  the source attached. Nothing happens when the instance has no such promise.
\<close>

definition awaited :: "nat \<Rightarrow> ('v, 'e) state \<Rightarrow> bool" where
  "awaited k s = (k < length (instances s) \<and> 0 < inflight (instances s ! k))"

definition landed :: "nat \<Rightarrow> ('v, 'e) state \<Rightarrow> ('v, 'e) state" where
  "landed k s = update_instance k (\<lambda>i. i\<lparr>inflight := inflight i - 1\<rparr>) s"

text \<open>
  The events. \<open>Render\<close>: React renders the mounted component, the loaded component
  rendering without an error. \<open>ChildThrows x\<close>: a render in which the loaded component
  throws \<open>x\<close>. \<open>DepsChange\<close>: a render with an \<^verbatim>\<open>importFn\<close> of a new identity. \<open>Fulfil\<close>, \<open>Fail\<close>:
  a promise of the loader settles. \<open>Reset\<close>: a call of \<open>handleReset\<close>. \<open>Retry\<close>: a call of
  the reset trigger handed to the error view.
\<close>

datatype ('v, 'e) event =
    Render
  | Fulfil nat 'v
  | Fail nat "'e reason"
  | TimerFires nat
  | Unmount
  | Reset
  | Retry
  | ChildThrows 'e
  | DepsChange

definition step :: "props \<Rightarrow> ('v, 'e) event \<Rightarrow> ('v, 'e) state \<Rightarrow> ('v, 'e) state" where
  "step p ev s =
     (case ev of
        Render \<Rightarrow> if isMountedRef s then render p s else s
      | Fulfil k v \<Rightarrow> if awaited k s then onFulfilled p k v (landed k s) else s
      | Fail k e \<Rightarrow> if awaited k s then onRejected p k e (landed k s) else s
      | TimerFires t \<Rightarrow> fire p t s
      | Unmount \<Rightarrow> if isMountedRef s then unmount p s else s
      | Reset \<Rightarrow> handleReset p s
      | Retry \<Rightarrow> handleRetry p (resetErrorBoundary p) s
      | ChildThrows x \<Rightarrow> if isMountedRef s then render_with p False (Some x) s else s
      | DepsChange \<Rightarrow> if isMountedRef s then render_with p True None s else s)"

definition exec :: "props \<Rightarrow> ('v, 'e) event list \<Rightarrow> ('v, 'e) state \<Rightarrow> ('v, 'e) state" where
  "exec p evs s = foldl (\<lambda>t ev. step p ev t) s evs"

subsection \<open>One instance run to the end\<close>

text \<open>
  What a run of the first loader instance shows to the outside: how often the loader was
  called, and the delays of the timeouts set, in order.
\<close>

fun is_import :: "'e effect \<Rightarrow> bool" where
  "is_import (ImportFn k) = True"
| "is_import _ = False"

fun delay_of :: "'e effect \<Rightarrow> number list" where
  "delay_of (SetTimeout t k d) = [d]"
| "delay_of _ = []"

definition invocations :: "('v, 'e) state \<Rightarrow> nat" where
  "invocations s = length (filter is_import (trace s))"

definition delays :: "('v, 'e) state \<Rightarrow> number list" where
  "delays s = concat (map delay_of (trace s))"

text \<open>The handles of all instances, in the order of their creation.\<close>

definition handles :: "('v, 'e) state \<Rightarrow> ('v, 'e) promise list" where
  "handles s = map promise (instances s)"

text \<open>
  The event loop around the first instance, for a component that stays mounted and is
  not reset: the loader's call number \<open>j\<close> (from 0) ends as \<open>loader j\<close> says, and a
  pending timeout fires when nothing else is waiting. The run ends when the loader hangs
  or nothing is pending; \<open>None\<close> means the fuel ran out first.
\<close>

datatype ('v, 'e) outcome = Succeeds 'v | Fails "'e reason" | Hangs

fun drive ::
  "nat \<Rightarrow> props \<Rightarrow> (nat \<Rightarrow> ('v, 'e) outcome) \<Rightarrow> ('v, 'e) state \<Rightarrow> ('v, 'e) state option" where
  "drive 0 p loader s = None"
| "drive (Suc n) p loader s =
     (if awaited 0 s then
        (case loader (invocations s - 1) of
           Succeeds v \<Rightarrow> drive n p loader (step p (Fulfil 0 v) s)
         | Fails e \<Rightarrow> drive n p loader (step p (Fail 0 e) s)
         | Hangs \<Rightarrow> Some s)
      else
        (case window_timers s of
           [] \<Rightarrow> Some s
         | tk # rest \<Rightarrow> drive n p loader (step p (TimerFires (fst tk)) s)))"

subsection \<open>Predicates of the claims\<close>

text \<open>
  The registry is exact when the ids of the set are the ids of the host's pending
  timeouts: each id of the set stands for a timeout that was set and has neither fired
  nor been cleared, and the component has no pending timeout outside the set.
\<close>

definition registry_exact :: "('v, 'e) state \<Rightarrow> bool" where
  "registry_exact s = (set (timersRef s) = fst ` set (window_timers s))"

text \<open>
  \<open>keeps s s'\<close>: every instance of \<open>s\<close> is still there in \<open>s'\<close>, and the promise of
  an instance that was settled in \<open>s\<close> is the same in \<open>s'\<close>.
\<close>

definition keeps :: "('v, 'e) state \<Rightarrow> ('v, 'e) state \<Rightarrow> bool" where
  "keeps s s' =
     (length (instances s) \<le> length (instances s') \<and>
      (\<forall>k < length (instances s).
         promise (instances s ! k) \<noteq> Pending \<longrightarrow>
         promise (instances s' ! k) = promise (instances s ! k)))"

text \<open>The cancellation flags of all instances; \<open>uncancelled\<close>: none of them is set.\<close>

definition flags :: "('v, 'e) state \<Rightarrow> bool list" where
  "flags s = map currentAttemptCancelled (instances s)"

definition uncancelled :: "('v, 'e) state \<Rightarrow> bool" where
  "uncancelled s = (True \<notin> set (flags s))"

text \<open>The invocations of the two observability callbacks in a trace, in order.\<close>

fun is_callback :: "'e effect \<Rightarrow> bool" where
  "is_callback (OnError e c) = True"
| "is_callback OnRetry = True"
| "is_callback _ = False"

definition callbacks :: "('v, 'e) state \<Rightarrow> 'e effect list" where
  "callbacks s = filter is_callback (trace s)"

text \<open>
  \<open>showing k s\<close>: the component is mounted, the boundary holds no error, no state update
  is queued, and the current lazy component is the one of instance \<open>k\<close>.
\<close>

definition showing :: "nat \<Rightarrow> ('v, 'e) state \<Rightarrow> bool" where
  "showing k s =
     (isMountedRef s \<and> boundaryError s = None \<and> queued s = [] \<and> lazyComponent s = Some k \<and>
      k < length (instances s))"

text \<open>
  \<open>awaiting p j s\<close>: the component is mounted with its first instance only, which has
  failed \<open>j\<close> times and waits for the outcome of the loader's call number \<open>j\<close>; no timeout
  is pending, the delays set so far are \<open>retryDelay\<close> times 1, 2, ..., \<open>j\<close>, the boundary
  holds no error and no callback has been called.
\<close>

definition awaiting :: "props \<Rightarrow> nat \<Rightarrow> ('v, 'e) state \<Rightarrow> bool" where
  "awaiting p j s =
     (isMountedRef s \<and>
      instances s =
        [\<lparr>attempts = j, currentAttemptCancelled = False, promise = Pending, inflight = 1\<rparr>] \<and>
      window_timers s = [] \<and> timersRef s = [] \<and>
      invocations s = Suc j \<and>
      delays s = map (times (retryDelay p)) [1..<Suc j] \<and>
      boundaryError s = None \<and> lazyComponent s = Some 0 \<and> queued s = [] \<and>
      callbacks s = [])"

subsection \<open>Concrete props, loaders and states\<close>

text \<open>The defaults of lines 50 to 56, with neither callback given.\<close>

definition default_props :: props where
  "default_props =
     \<lparr>retries = 3, retryDelay = 1000, verbose = False, onError = False, onRetry = False\<rparr>"

text \<open>The same with verbose logging on and both callbacks given.\<close>

definition observed_props :: props where
  "observed_props =
     \<lparr>retries = 3, retryDelay = 1000, verbose = True, onError = True, onRetry = True\<rparr>"

text \<open>
  Props with \<^verbatim>\<open>retries = 0\<close>, with \<^verbatim>\<open>retries = 1\<close> and \<open>onError\<close> given, and with four
  attempts and a delay whose triple is \<open>2 ^ 53 + 1\<close>. Loaders: one whose call number \<open>j\<close>
  fails with the error \<open>j\<close>, one that fails twice and one that fails three times before
  it succeeds.
\<close>

definition no_retry_props :: props where
  "no_retry_props =
     \<lparr>retries = 0, retryDelay = 1000, verbose = False, onError = False, onRetry = False\<rparr>"

definition single_attempt_props :: props where
  "single_attempt_props =
     \<lparr>retries = 1, retryDelay = 1000, verbose = False, onError = True, onRetry = True\<rparr>"


definition always_fails :: "nat \<Rightarrow> (nat, nat) outcome" where
  "always_fails j = Fails (Reason j)"



text \<open>
  Two states of a component mounted with \<open>observed_props\<close>: after the first failure,
  with the first retry timer pending, and after the third and last failure.
\<close>

definition one_failure :: "(nat, nat) state" where
  "one_failure = exec observed_props [Fail 0 (Reason 1)] (mount observed_props)"

definition exhausted :: "(nat, nat) state" where
  "exhausted =
     exec observed_props
       [Fail 0 (Reason 1), TimerFires 1, Fail 0 (Reason 2), TimerFires 2, Fail 0 (Reason 3)]
       (mount observed_props)"

text \<open>
  A \<^verbatim>\<open>resetErrorBoundary\<close> that drops the boundary's own error and calls nothing of the
  component.
\<close>

definition boundary_only :: "('v, 'e) state \<Rightarrow> ('v, 'e) state" where
  "boundary_only s = s\<lparr>boundaryError := None\<rparr>"

section \<open>What each function changes\<close>

lemma emit_fields [simp]:
  "mountKey (emit x s) = mountKey s"
  "retryKey (emit x s) = retryKey s"
  "queued (emit x s) = queued s"
  "timersRef (emit x s) = timersRef s"
  "isMountedRef (emit x s) = isMountedRef s"
  "window_timers (emit x s) = window_timers s"
  "next_timer (emit x s) = next_timer s"
  "instances (emit x s) = instances s"
  "lazyComponent (emit x s) = lazyComponent s"
  "boundaryError (emit x s) = boundaryError s"
  "reactStack (emit x s) = reactStack s"
  "trace (emit x s) = trace s @ [x]"
  by (simp_all add: emit_def)

lemma log_fields [simp]:
  "mountKey (log p l m s) = mountKey s"
  "retryKey (log p l m s) = retryKey s"
  "queued (log p l m s) = queued s"
  "timersRef (log p l m s) = timersRef s"
  "isMountedRef (log p l m s) = isMountedRef s"
  "window_timers (log p l m s) = window_timers s"
  "next_timer (log p l m s) = next_timer s"
  "instances (log p l m s) = instances s"
  "lazyComponent (log p l m s) = lazyComponent s"
  "boundaryError (log p l m s) = boundaryError s"
  "reactStack (log p l m s) = reactStack s"
  "trace (log p l m s) = trace s @ (if verbose p then [Console l m] else [])"
  by (simp_all add: log_def)

lemma update_instance_fields [simp]:
  "mountKey (update_instance k f s) = mountKey s"
  "retryKey (update_instance k f s) = retryKey s"
  "queued (update_instance k f s) = queued s"
  "timersRef (update_instance k f s) = timersRef s"
  "isMountedRef (update_instance k f s) = isMountedRef s"
  "window_timers (update_instance k f s) = window_timers s"
  "next_timer (update_instance k f s) = next_timer s"
  "instances (update_instance k f s) = (instances s)[k := f (instances s ! k)]"
  "lazyComponent (update_instance k f s) = lazyComponent s"
  "boundaryError (update_instance k f s) = boundaryError s"
  "reactStack (update_instance k f s) = reactStack s"
  "trace (update_instance k f s) = trace s"
  by (simp_all add: update_instance_def)

lemma settle_fields [simp]:
  "mountKey (settle k g s) = mountKey s"
  "retryKey (settle k g s) = retryKey s"
  "queued (settle k g s) = queued s"
  "timersRef (settle k g s) = timersRef s"
  "isMountedRef (settle k g s) = isMountedRef s"
  "window_timers (settle k g s) = window_timers s"
  "next_timer (settle k g s) = next_timer s"
  "instances (settle k g s) = (instances s)[k := (instances s ! k)\<lparr>promise := g (promise (instances s ! k))\<rparr>]"
  "lazyComponent (settle k g s) = lazyComponent s"
  "boundaryError (settle k g s) = boundaryError s"
  "reactStack (settle k g s) = reactStack s"
  "trace (settle k g s) = trace s"
  by (simp_all add: settle_def)

lemma clearAllTimers_fields [simp]:
  "mountKey (clearAllTimers s) = mountKey s"
  "retryKey (clearAllTimers s) = retryKey s"
  "queued (clearAllTimers s) = queued s"
  "timersRef (clearAllTimers s) = []"
  "isMountedRef (clearAllTimers s) = isMountedRef s"
  "window_timers (clearAllTimers s) = filter (\<lambda>tk. fst tk \<notin> set (timersRef s)) (window_timers s)"
  "next_timer (clearAllTimers s) = next_timer s"
  "instances (clearAllTimers s) = instances s"
  "lazyComponent (clearAllTimers s) = lazyComponent s"
  "boundaryError (clearAllTimers s) = boundaryError s"
  "reactStack (clearAllTimers s) = reactStack s"
  "trace (clearAllTimers s) = trace s @ map ClearTimeout (timersRef s)"
  by (simp_all add: clearAllTimers_def)

lemma createSafeTimeout_fields [simp]:
  "mountKey (createSafeTimeout k d s) = mountKey s"
  "retryKey (createSafeTimeout k d s) = retryKey s"
  "queued (createSafeTimeout k d s) = queued s"
  "isMountedRef (createSafeTimeout k d s) = isMountedRef s"
  "instances (createSafeTimeout k d s) = instances s"
  "lazyComponent (createSafeTimeout k d s) = lazyComponent s"
  "boundaryError (createSafeTimeout k d s) = boundaryError s"
  "reactStack (createSafeTimeout k d s) = reactStack s"
  by (simp_all add: createSafeTimeout_def Let_def)

lemma tryImport_fields [simp]:
  "mountKey (tryImport p k s) = mountKey s"
  "retryKey (tryImport p k s) = retryKey s"
  "queued (tryImport p k s) = queued s"
  "timersRef (tryImport p k s) = timersRef s"
  "isMountedRef (tryImport p k s) = isMountedRef s"
  "window_timers (tryImport p k s) = window_timers s"
  "next_timer (tryImport p k s) = next_timer s"
  "lazyComponent (tryImport p k s) = lazyComponent s"
  "boundaryError (tryImport p k s) = boundaryError s"
  "reactStack (tryImport p k s) = reactStack s"
  by (simp_all add: tryImport_def)

lemma onFulfilled_fields [simp]:
  "mountKey (onFulfilled p k v s) = mountKey s"
  "retryKey (onFulfilled p k v s) = retryKey s"
  "queued (onFulfilled p k v s) = queued s"
  "timersRef (onFulfilled p k v s) = timersRef s"
  "isMountedRef (onFulfilled p k v s) = isMountedRef s"
  "window_timers (onFulfilled p k v s) = window_timers s"
  "next_timer (onFulfilled p k v s) = next_timer s"
  "lazyComponent (onFulfilled p k v s) = lazyComponent s"
  "boundaryError (onFulfilled p k v s) = boundaryError s"
  "reactStack (onFulfilled p k v s) = reactStack s"
  "trace (onFulfilled p k v s) = trace s"
  by (simp_all add: onFulfilled_def)

lemma onRejected_fields [simp]:
  "mountKey (onRejected p k e s) = mountKey s"
  "retryKey (onRejected p k e s) = retryKey s"
  "queued (onRejected p k e s) = queued s"
  "isMountedRef (onRejected p k e s) = isMountedRef s"
  "lazyComponent (onRejected p k e s) = lazyComponent s"
  "boundaryError (onRejected p k e s) = boundaryError s"
  "reactStack (onRejected p k e s) = reactStack s"
  by (simp_all add: onRejected_def Let_def split: reason.splits)

lemma landed_fields [simp]:
  "mountKey (landed k s) = mountKey s"
  "retryKey (landed k s) = retryKey s"
  "queued (landed k s) = queued s"
  "timersRef (landed k s) = timersRef s"
  "isMountedRef (landed k s) = isMountedRef s"
  "window_timers (landed k s) = window_timers s"
  "next_timer (landed k s) = next_timer s"
  "lazyComponent (landed k s) = lazyComponent s"
  "boundaryError (landed k s) = boundaryError s"
  "reactStack (landed k s) = reactStack s"
  "trace (landed k s) = trace s"
  by (simp_all add: landed_def)

lemma executor_fields [simp]:
  "mountKey (executor p s) = mountKey s"
  "retryKey (executor p s) = retryKey s"
  "queued (executor p s) = queued s"
  "timersRef (executor p s) = timersRef s"
  "isMountedRef (executor p s) = isMountedRef s"
  "window_timers (executor p s) = window_timers s"
  "next_timer (executor p s) = next_timer s"
  "lazyComponent (executor p s) = lazyComponent s"
  "boundaryError (executor p s) = boundaryError s"
  "reactStack (executor p s) = reactStack s"
  by (simp_all add: executor_def)

lemma handleError_fields [simp]:
  "mountKey (handleError p e c s) = mountKey s"
  "retryKey (handleError p e c s) = retryKey s"
  "queued (handleError p e c s) = queued s"
  "timersRef (handleError p e c s) = timersRef s"
  "isMountedRef (handleError p e c s) = isMountedRef s"
  "window_timers (handleError p e c s) = window_timers s"
  "next_timer (handleError p e c s) = next_timer s"
  "instances (handleError p e c s) = instances s"
  "lazyComponent (handleError p e c s) = lazyComponent s"
  "boundaryError (handleError p e c s) = boundaryError s"
  "reactStack (handleError p e c s) = reactStack s"
  by (simp_all add: handleError_def Let_def)

lemma apply_update_fields [simp]:
  "queued (apply_update p u s) = queued s"
  "timersRef (apply_update p u s) = timersRef s"
  "isMountedRef (apply_update p u s) = isMountedRef s"
  "window_timers (apply_update p u s) = window_timers s"
  "next_timer (apply_update p u s) = next_timer s"
  "instances (apply_update p u s) = instances s"
  "lazyComponent (apply_update p u s) = lazyComponent s"
  "boundaryError (apply_update p u s) = boundaryError s"
  "reactStack (apply_update p u s) = reactStack s"
  by (simp_all add: apply_update_def Let_def split: update.splits)

lemma apply_updates_fields [simp]:
  "queued (foldl (\<lambda>t u. apply_update p u t) s us) = queued s"
  "timersRef (foldl (\<lambda>t u. apply_update p u t) s us) = timersRef s"
  "isMountedRef (foldl (\<lambda>t u. apply_update p u t) s us) = isMountedRef s"
  "window_timers (foldl (\<lambda>t u. apply_update p u t) s us) = window_timers s"
  "next_timer (foldl (\<lambda>t u. apply_update p u t) s us) = next_timer s"
  "instances (foldl (\<lambda>t u. apply_update p u t) s us) = instances s"
  "lazyComponent (foldl (\<lambda>t u. apply_update p u t) s us) = lazyComponent s"
  "boundaryError (foldl (\<lambda>t u. apply_update p u t) s us) = boundaryError s"
  "reactStack (foldl (\<lambda>t u. apply_update p u t) s us) = reactStack s"
  by (induction us arbitrary: s; simp)+

lemma handleReset_fields [simp]:
  "mountKey (handleReset p s) = mountKey s"
  "retryKey (handleReset p s) = retryKey s"
  "queued (handleReset p s) = queued s @ [IncRetryKey, IncMountKey]"
  "timersRef (handleReset p s) = []"
  "isMountedRef (handleReset p s) = isMountedRef s"
  "window_timers (handleReset p s) = filter (\<lambda>tk. fst tk \<notin> set (timersRef s)) (window_timers s)"
  "next_timer (handleReset p s) = next_timer s"
  "instances (handleReset p s) = instances s"
  "lazyComponent (handleReset p s) = lazyComponent s"
  "boundaryError (handleReset p s) = boundaryError s"
  "reactStack (handleReset p s) = reactStack s"
  by (simp_all add: handleReset_def retryLazyComponent_def setRetryKey_def setMountKey_def Let_def)

lemma useMemo_factory_fields [simp]:
  "mountKey (useMemo_factory p s) = mountKey s"
  "retryKey (useMemo_factory p s) = retryKey s"
  "queued (useMemo_factory p s) = queued s"
  "timersRef (useMemo_factory p s) = timersRef s"
  "isMountedRef (useMemo_factory p s) = isMountedRef s"
  "window_timers (useMemo_factory p s) = window_timers s"
  "next_timer (useMemo_factory p s) = next_timer s"
  "instances (useMemo_factory p s) = instances s"
  "lazyComponent (useMemo_factory p s) = None"
  "boundaryError (useMemo_factory p s) = boundaryError s"
  "reactStack (useMemo_factory p s) = reactStack s"
  by (simp_all add: useMemo_factory_def)

lemma lazy_init_fields [simp]:
  "mountKey (lazy_init p s) = mountKey s"
  "retryKey (lazy_init p s) = retryKey s"
  "queued (lazy_init p s) = queued s"
  "timersRef (lazy_init p s) = timersRef s"
  "isMountedRef (lazy_init p s) = isMountedRef s"
  "window_timers (lazy_init p s) = window_timers s"
  "next_timer (lazy_init p s) = next_timer s"
  "lazyComponent (lazy_init p s) = Some (length (instances s))"
  "boundaryError (lazy_init p s) = boundaryError s"
  "reactStack (lazy_init p s) = reactStack s"
  by (simp_all add: lazy_init_def)

lemma boundary_catches_fields [simp]:
  "mountKey (boundary_catches p e s) = mountKey s"
  "retryKey (boundary_catches p e s) = retryKey s"
  "queued (boundary_catches p e s) = queued s"
  "timersRef (boundary_catches p e s) = timersRef s"
  "isMountedRef (boundary_catches p e s) = isMountedRef s"
  "window_timers (boundary_catches p e s) = window_timers s"
  "next_timer (boundary_catches p e s) = next_timer s"
  "instances (boundary_catches p e s) = instances s"
  "lazyComponent (boundary_catches p e s) = lazyComponent s"
  "boundaryError (boundary_catches p e s) = Some e"
  "reactStack (boundary_catches p e s) = reactStack s"
  by (simp_all add: boundary_catches_def)

lemma unmount_fields [simp]:
  "mountKey (unmount p s) = mountKey s"
  "retryKey (unmount p s) = retryKey s"
  "queued (unmount p s) = queued s"
  "timersRef (unmount p s) = []"
  "isMountedRef (unmount p s) = False"
  "next_timer (unmount p s) = next_timer s"
  "instances (unmount p s) = instances s"
  "lazyComponent (unmount p s) = lazyComponent s"
  "boundaryError (unmount p s) = boundaryError s"
  "reactStack (unmount p s) = reactStack s"
  by (simp_all add: unmount_def mounted_effect_cleanup_def)

lemma createSafeTimeout_mounted:
  "isMountedRef s \<Longrightarrow> window_timers (createSafeTimeout k d s) = window_timers s @ [(next_timer s, k)]"
  "isMountedRef s \<Longrightarrow> next_timer (createSafeTimeout k d s) = Suc (next_timer s)"
  "isMountedRef s \<Longrightarrow> trace (createSafeTimeout k d s) = trace s @ [SetTimeout (next_timer s) k d]"
  "isMountedRef s \<Longrightarrow> timersRef (createSafeTimeout k d s) =
     (if next_timer s \<in> set (timersRef s) then timersRef s else timersRef s @ [next_timer s])"
  by (simp_all add: createSafeTimeout_def Let_def)

lemma createSafeTimeout_unmounted: "\<not> isMountedRef s \<Longrightarrow> createSafeTimeout k d s = s"
  by (simp add: createSafeTimeout_def)

lemma render_children_timers [simp]:
  "timersRef (render_children p th s) = timersRef s"
  "window_timers (render_children p th s) = window_timers s"
  "isMountedRef (render_children p th s) = isMountedRef s"
  "next_timer (render_children p th s) = next_timer s"
  "queued (render_children p th s) = queued s"
  "mountKey (render_children p th s) = mountKey s"
  "retryKey (render_children p th s) = retryKey s"
  "reactStack (render_children p th s) = reactStack s"
  by (simp_all add: render_children_def split: option.splits promise.splits)

section \<open>The registry is exact\<close>

lemma registry_frame:
  "timersRef s' = timersRef s \<Longrightarrow> window_timers s' = window_timers s \<Longrightarrow>
     registry_exact s \<Longrightarrow> registry_exact s'"
  by (simp add: registry_exact_def)

lemma registry_clearAllTimers: "registry_exact s \<Longrightarrow> registry_exact (clearAllTimers s)"
  by (auto simp: registry_exact_def filter_empty_conv)

lemma registry_createSafeTimeout: "registry_exact s \<Longrightarrow> registry_exact (createSafeTimeout k d s)"
  by (cases "isMountedRef s")
     (auto simp: registry_exact_def createSafeTimeout_mounted createSafeTimeout_unmounted)

lemma registry_onRejected: "registry_exact s \<Longrightarrow> registry_exact (onRejected p k e s)"
  unfolding onRejected_def Let_def
  by (auto intro!: registry_createSafeTimeout elim: registry_frame[rotated 2] split: reason.splits)

lemma registry_fire: "registry_exact s \<Longrightarrow> registry_exact (fire p t s)"
  by (auto simp: fire_def timeout_handler_def registry_exact_def Let_def split: option.splits)

lemma registry_handleReset: "registry_exact s \<Longrightarrow> registry_exact (handleReset p s)"
  by (auto simp: registry_exact_def filter_empty_conv)

lemma registry_boundary_update:
  "registry_exact s \<Longrightarrow> registry_exact (s\<lparr>boundaryError := b\<rparr>)"
  by (simp add: registry_exact_def)

lemma registry_componentDidUpdate:
  "registry_exact s \<Longrightarrow> registry_exact (componentDidUpdate p held changed s)"
  by (simp add: componentDidUpdate_def registry_handleReset registry_boundary_update)

lemma registry_resetErrorBoundary:
  "registry_exact s \<Longrightarrow> registry_exact (resetErrorBoundary p s)"
  by (simp add: resetErrorBoundary_def registry_handleReset registry_boundary_update
      split: option.splits)

lemma registry_render_with: "registry_exact s \<Longrightarrow> registry_exact (render_with p d th s)"
proof -
  assume ok: "registry_exact s"
  let ?s1 = "foldl (\<lambda>t u. apply_update p u t) (s\<lparr>queued := []\<rparr>) (queued s)"
  have 1: "registry_exact ?s1"
    using ok by (simp add: registry_exact_def)
  have 2: "registry_exact (render_children p th (useMemo_factory p ?s1))"
    using 1 by (simp add: registry_exact_def)
  have 3: "registry_exact (render_children p th ?s1)"
    using 1 by (simp add: registry_exact_def)
  show ?thesis
    unfolding render_with_def Let_def
    using 2 3 by (simp add: registry_componentDidUpdate registry_clearAllTimers)
qed

lemma registry_unmount: "registry_exact s \<Longrightarrow> registry_exact (unmount p s)"
  by (auto simp: unmount_def mounted_effect_cleanup_def registry_exact_def filter_empty_conv)

lemma registry_step:
  assumes ok: "registry_exact s"
  shows "registry_exact (step p ev s)"
proof (cases ev)
  case Render
  then show ?thesis using ok by (simp add: step_def render_def registry_render_with)
next
  case (Fulfil k v)
  then show ?thesis using ok by (simp add: step_def registry_exact_def)
next
  case (Fail k e)
  have "registry_exact (landed k s)"
    using ok by (simp add: registry_exact_def)
  then show ?thesis
    using ok Fail by (simp add: step_def registry_onRejected)
next
  case (TimerFires t)
  then show ?thesis using ok by (simp add: step_def registry_fire)
next
  case Unmount
  then show ?thesis using ok by (simp add: step_def registry_unmount)
next
  case Reset
  then show ?thesis using ok by (simp add: step_def registry_handleReset)
next
  case Retry
  then show ?thesis
    using ok by (simp add: step_def handleRetry_def registry_resetErrorBoundary registry_handleReset)
next
  case (ChildThrows x)
  then show ?thesis using ok by (simp add: step_def registry_render_with)
next
  case DepsChange
  then show ?thesis using ok by (simp add: step_def registry_render_with)
qed

lemma registry_exec: "registry_exact s \<Longrightarrow> registry_exact (exec p evs s)"
  unfolding exec_def by (induction evs arbitrary: s) (simp_all add: registry_step)

lemma registry_mount: "registry_exact (mount p)"
  by (simp add: mount_def registry_exact_def initial_def)

section \<open>A settled promise stays as it is\<close>

lemma keeps_refl: "keeps s s"
  by (simp add: keeps_def)

lemma keeps_trans: "keeps s t \<Longrightarrow> keeps t u \<Longrightarrow> keeps s u"
  by (auto simp: keeps_def)

lemma keeps_frame: "instances s' = instances s \<Longrightarrow> keeps s s'"
  by (simp add: keeps_def)

lemma nth_update_cases:
  "j < length xs \<Longrightarrow> xs[k := x] ! j = (if k = j then x else xs ! j)"
  by (cases "k = j") simp_all

lemma map_update_same:
  "(\<And>i. f (g i) = f i) \<Longrightarrow> map f (xs[k := g (xs ! k)]) = map f xs"
proof (induction xs arbitrary: k)
  case Nil
  show ?case by simp
next
  case (Cons x xs)
  then show ?case by (cases k) simp_all
qed

lemma keeps_update_instance:
  "(\<And>i. promise (f i) = promise i) \<Longrightarrow> keeps s (update_instance k f s)"
  by (simp add: keeps_def nth_update_cases)

lemma resolve_settled: "q \<noteq> Pending \<Longrightarrow> resolve v q = q"
  by (cases q) (simp_all add: resolve_def)

lemma reject_settled: "q \<noteq> Pending \<Longrightarrow> reject x q = q"
  by (cases q) (simp_all add: reject_def)

lemma keeps_settle:
  "(\<And>q. q \<noteq> Pending \<Longrightarrow> g q = q) \<Longrightarrow> keeps s (settle k g s)"
  by (simp add: keeps_def nth_update_cases)

lemma keeps_tryImport: "keeps s (tryImport p k s)"
proof -
  let ?s1 = "update_instance k (\<lambda>i. i\<lparr>inflight := Suc (inflight i)\<rparr>) s"
  have "keeps s ?s1"
    by (rule keeps_update_instance) simp
  moreover have "keeps ?s1 (emit (ImportFn k) ?s1)"
    by (rule keeps_frame) simp
  ultimately have "keeps s (emit (ImportFn k) ?s1)"
    by (rule keeps_trans)
  moreover have "keeps s (settle k (reject ImportCancelled) s)"
    by (rule keeps_settle) (rule reject_settled)
  ultimately show ?thesis
    by (simp add: tryImport_def)
qed

lemma keeps_onFulfilled: "keeps s (onFulfilled p k v s)"
  unfolding onFulfilled_def
  by (auto intro!: keeps_settle resolve_settled keeps_refl)

lemma keeps_onRejected: "keeps s (onRejected p k e s)"
proof -
  let ?s1 = "update_instance k (\<lambda>i. i\<lparr>attempts := Suc (attempts i)\<rparr>) s"
  have 1: "keeps s ?s1"
    by (rule keeps_update_instance) simp
  have 2: "keeps ?s1 (settle k (reject (Thrown x)) (log p Info m ?s1))" for m x
    by (rule keeps_trans[OF keeps_frame keeps_settle]) (simp_all add: reject_settled)
  have 3: "keeps ?s1 (createSafeTimeout k d (log p Info m' (log p Info m ?s1)))" for d m m'
    by (rule keeps_frame) simp
  show ?thesis
    unfolding onRejected_def Let_def
    using 1 keeps_trans[OF 1 2] keeps_trans[OF 1 3]
    by (auto intro!: keeps_settle reject_settled split: reason.splits)
qed

lemma keeps_landed: "keeps s (landed k s)"
  unfolding landed_def by (rule keeps_update_instance) simp

lemma keeps_executor: "keeps s (executor p s)"
proof -
  let ?s1 = "s\<lparr>instances := instances s @
            [\<lparr>attempts = 0, currentAttemptCancelled = False, promise = Pending, inflight = 0\<rparr>]\<rparr>"
  have "keeps s ?s1"
    by (simp add: keeps_def nth_append)
  then show ?thesis
    unfolding executor_def by (rule keeps_trans) (rule keeps_tryImport)
qed

lemma keeps_lazy_init: "keeps s (lazy_init p s)"
proof -
  have "keeps (executor p s) (lazy_init p s)"
    by (rule keeps_frame) (simp add: lazy_init_def)
  with keeps_executor show ?thesis
    by (rule keeps_trans)
qed

lemma keeps_render_children: "keeps s (render_children p th s)"
  by (simp add: render_children_def keeps_refl keeps_lazy_init keeps_frame
      split: option.splits promise.splits)

lemma keeps_componentDidUpdate: "keeps s (componentDidUpdate p held changed s)"
  by (rule keeps_frame) (simp add: componentDidUpdate_def)

lemma keeps_resetErrorBoundary: "keeps s (resetErrorBoundary p s)"
  by (rule keeps_frame) (simp add: resetErrorBoundary_def split: option.splits)

lemma keeps_render_with: "keeps s (render_with p d th s)"
proof -
  let ?s1 = "foldl (\<lambda>t u. apply_update p u t) (s\<lparr>queued := []\<rparr>) (queued s)"
  have 1: "keeps s ?s1"
    by (rule keeps_frame) simp
  have 2: "keeps ?s1 (useMemo_factory p ?s1)"
    by (rule keeps_frame) simp
  have 3: "keeps s (render_children p th (useMemo_factory p ?s1))"
    by (rule keeps_trans[OF keeps_trans[OF 1 2] keeps_render_children])
  have 4: "keeps s (render_children p th ?s1)"
    by (rule keeps_trans[OF 1 keeps_render_children])
  have 5: "keeps s (clearAllTimers (componentDidUpdate p h c t))
      \<and> keeps s (componentDidUpdate p h c t)" if "keeps s t" for t h c
  proof -
    have a: "keeps s (componentDidUpdate p h c t)"
      using that keeps_componentDidUpdate by (rule keeps_trans)
    have "keeps (componentDidUpdate p h c t) (clearAllTimers (componentDidUpdate p h c t))"
      by (rule keeps_frame) simp
    with a have "keeps s (clearAllTimers (componentDidUpdate p h c t))"
      by (rule keeps_trans)
    with a show ?thesis by simp
  qed
  show ?thesis
    unfolding render_with_def Let_def
    using 5[OF 3] 5[OF 4] by simp
qed

lemma keeps_fire: "keeps s (fire p t s)"
proof (cases "map_of (window_timers s) t")
  case None
  then show ?thesis by (simp add: fire_def keeps_refl)
next
  case (Some k)
  let ?s1 = "s\<lparr>window_timers := filter (\<lambda>tk. fst tk \<noteq> t) (window_timers s)\<rparr>"
  let ?s2 = "?s1\<lparr>timersRef := removeAll t (timersRef ?s1)\<rparr>"
  have 1: "keeps s ?s2"
    by (rule keeps_frame) simp
  have "keeps s (tryImport p k ?s2)"
    by (rule keeps_trans[OF 1 keeps_tryImport])
  with 1 Some show ?thesis
    by (simp add: fire_def timeout_handler_def Let_def)
qed

lemma keeps_step: "keeps s (step p ev s)"
proof (cases ev)
  case Render
  then show ?thesis by (simp add: step_def render_def keeps_render_with keeps_refl)
next
  case (Fulfil k v)
  then show ?thesis
    by (simp add: step_def keeps_refl keeps_trans[OF keeps_landed keeps_onFulfilled])
next
  case (Fail k e)
  then show ?thesis
    by (simp add: step_def keeps_refl keeps_trans[OF keeps_landed keeps_onRejected])
next
  case (TimerFires t)
  then show ?thesis by (simp add: step_def keeps_fire)
next
  case Unmount
  have "keeps s (unmount p s)"
    by (rule keeps_frame) simp
  with Unmount show ?thesis by (simp add: step_def keeps_refl)
next
  case Reset
  then show ?thesis by (simp add: step_def keeps_frame)
next
  case Retry
  have "keeps s (handleReset p s)"
    by (rule keeps_frame) simp
  then have "keeps s (resetErrorBoundary p (handleReset p s))"
    by (rule keeps_trans) (rule keeps_resetErrorBoundary)
  with Retry show ?thesis by (simp add: step_def handleRetry_def)
next
  case (ChildThrows x)
  then show ?thesis by (simp add: step_def keeps_render_with keeps_refl)
next
  case DepsChange
  then show ?thesis by (simp add: step_def keeps_render_with keeps_refl)
qed

lemma keeps_exec: "keeps s (exec p evs s)"
proof (induction evs arbitrary: s)
  case Nil
  show ?case by (simp add: exec_def keeps_refl)
next
  case (Cons ev evs)
  have "keeps (step p ev s) (exec p evs (step p ev s))"
    by (rule Cons.IH)
  with keeps_step[of s p ev] show ?case
    by (simp add: exec_def keeps_trans)
qed

section \<open>After unmount\<close>

lemma onFulfilled_unmounted: "\<not> isMountedRef s \<Longrightarrow> onFulfilled p k v s = s"
  by (simp add: onFulfilled_def)

lemma onRejected_unmounted:
  "\<not> isMountedRef s \<Longrightarrow> onRejected p k e s = settle k (reject ImportCancelled) s"
  by (simp add: onRejected_def)

section \<open>The cancellation flag\<close>

lemma flags_frame: "instances s' = instances s \<Longrightarrow> flags s' = flags s"
  by (simp add: flags_def)

lemma flags_update_instance:
  "(\<And>i. currentAttemptCancelled (f i) = currentAttemptCancelled i) \<Longrightarrow>
     flags (update_instance k f s) = flags s"
  by (simp add: flags_def map_update_same)

lemma flags_settle [simp]: "flags (settle k g s) = flags s"
  unfolding settle_def by (rule flags_update_instance) simp

lemma flags_emit [simp]: "flags (emit x s) = flags s"
  by (simp add: flags_def)

lemma flags_log [simp]: "flags (log p l m s) = flags s"
  by (simp add: flags_def)

lemma flags_createSafeTimeout [simp]: "flags (createSafeTimeout k d s) = flags s"
  by (simp add: flags_def)

lemma flags_clearAllTimers [simp]: "flags (clearAllTimers s) = flags s"
  by (simp add: flags_def)

lemma flags_handleReset [simp]: "flags (handleReset p s) = flags s"
  by (simp add: flags_def)

lemma flags_handleError [simp]: "flags (handleError p e c s) = flags s"
  by (simp add: flags_def)

lemma flags_unmount [simp]: "flags (unmount p s) = flags s"
  by (simp add: flags_def)

lemma flags_new_instance [simp]:
  "flags (s\<lparr>instances := instances s @ [i]\<rparr>) = flags s @ [currentAttemptCancelled i]"
  by (simp add: flags_def)

lemma flags_field_update [simp]:
  "flags (s\<lparr>queued := us\<rparr>) = flags s"
  "flags (s\<lparr>timersRef := ts\<rparr>) = flags s"
  "flags (s\<lparr>window_timers := ws\<rparr>) = flags s"
  "flags (s\<lparr>isMountedRef := b\<rparr>) = flags s"
  "flags (s\<lparr>lazyComponent := l\<rparr>) = flags s"
  "flags (s\<lparr>boundaryError := e\<rparr>) = flags s"
  by (simp_all add: flags_def)

lemma flags_initial [simp]: "flags initial = []"
  by (simp add: flags_def initial_def)

lemma flags_apply_updates [simp]:
  "flags (foldl (\<lambda>t u. apply_update p u t) s us) = flags s"
  by (simp add: flags_def)

lemma flags_tryImport [simp]: "flags (tryImport p k s) = flags s"
  by (simp add: tryImport_def flags_update_instance)

lemma flags_onFulfilled [simp]: "flags (onFulfilled p k v s) = flags s"
  by (simp add: onFulfilled_def)

lemma flags_onRejected [simp]: "flags (onRejected p k e s) = flags s"
  by (simp add: onRejected_def Let_def flags_update_instance split: reason.splits)

lemma flags_landed [simp]: "flags (landed k s) = flags s"
  unfolding landed_def by (rule flags_update_instance) simp

lemma flags_useMemo_factory [simp]: "flags (useMemo_factory p s) = flags s"
  by (simp add: flags_def)

lemma flags_lazy_init [simp]: "flags (lazy_init p s) = flags s @ [False]"
proof -
  have "flags (lazy_init p s) = flags (s
      \<lparr>instances := instances s @
        [\<lparr>attempts = 0, currentAttemptCancelled = False, promise = Pending, inflight = 0\<rparr>]\<rparr>)"
    by (simp add: lazy_init_def executor_def)
  also have "\<dots> = flags s @ [False]"
    by (simp only: flags_new_instance) simp
  finally show ?thesis .
qed

lemma flags_boundary_catches [simp]: "flags (boundary_catches p e s) = flags s"
  by (simp add: boundary_catches_def)

lemma flags_render_children:
  "flags (render_children p th s) = flags s \<or> flags (render_children p th s) = flags s @ [False]"
  by (simp add: render_children_def split: option.splits promise.splits)

lemma flags_componentDidUpdate [simp]: "flags (componentDidUpdate p h c s) = flags s"
  by (simp add: componentDidUpdate_def)

lemma flags_resetErrorBoundary [simp]: "flags (resetErrorBoundary p s) = flags s"
  by (simp add: resetErrorBoundary_def split: option.splits)

lemma flags_render_with:
  "flags (render_with p d th s) = flags s \<or> flags (render_with p d th s) = flags s @ [False]"
proof -
  let ?s1 = "foldl (\<lambda>t u. apply_update p u t) (s\<lparr>queued := []\<rparr>) (queued s)"
  have "flags (render_children p th (useMemo_factory p ?s1)) = flags s
      \<or> flags (render_children p th (useMemo_factory p ?s1)) = flags s @ [False]"
    using flags_render_children [of p th "useMemo_factory p ?s1"] by simp
  moreover have "flags (render_children p th ?s1) = flags s
      \<or> flags (render_children p th ?s1) = flags s @ [False]"
    using flags_render_children [of p th ?s1] by simp
  ultimately show ?thesis
    unfolding render_with_def Let_def by simp
qed

lemma flags_fire [simp]: "flags (fire p t s) = flags s"
  by (simp add: fire_def timeout_handler_def Let_def split: option.splits)

lemma flags_step: "flags (step p ev s) = flags s \<or> flags (step p ev s) = flags s @ [False]"
proof (cases ev)
  case Render
  then show ?thesis using flags_render_with [of p False None s] by (simp add: step_def render_def)
next
  case (ChildThrows x)
  then show ?thesis using flags_render_with [of p False "Some x" s] by (simp add: step_def)
next
  case DepsChange
  then show ?thesis using flags_render_with [of p True None s] by (simp add: step_def)
qed (simp_all add: step_def handleRetry_def)

lemma uncancelled_step: "uncancelled s \<Longrightarrow> uncancelled (step p ev s)"
  using flags_step [of p ev s] by (auto simp: uncancelled_def)

lemma uncancelled_exec: "uncancelled s \<Longrightarrow> uncancelled (exec p evs s)"
  unfolding exec_def by (induction evs arbitrary: s) (simp_all add: uncancelled_step)

lemma initial_fields [simp]:
  "mountKey initial = 0" "retryKey initial = 0" "queued initial = []" "timersRef initial = []"
  "isMountedRef initial" "window_timers initial = []" "next_timer initial = 1"
  "instances initial = []" "lazyComponent initial = None" "boundaryError initial = None"
  "trace initial = []"
  by (simp_all add: initial_def)

lemma uncancelled_mount: "uncancelled (mount p)"
  by (simp add: uncancelled_def mount_def render_children_def)

section \<open>Who calls the callbacks\<close>

lemma callbacks_frame: "trace s' = trace s \<Longrightarrow> callbacks s' = callbacks s"
  by (simp add: callbacks_def)

lemma callbacks_field_update [simp]:
  "callbacks (s\<lparr>instances := xs\<rparr>) = callbacks s"
  "callbacks (s\<lparr>mountKey := n\<rparr>) = callbacks s"
  "callbacks (s\<lparr>retryKey := n\<rparr>) = callbacks s"
  "callbacks (s\<lparr>queued := us\<rparr>) = callbacks s"
  "callbacks (s\<lparr>timersRef := ts\<rparr>) = callbacks s"
  "callbacks (s\<lparr>window_timers := ws\<rparr>) = callbacks s"
  "callbacks (s\<lparr>isMountedRef := b\<rparr>) = callbacks s"
  "callbacks (s\<lparr>next_timer := n\<rparr>) = callbacks s"
  "callbacks (s\<lparr>lazyComponent := l\<rparr>) = callbacks s"
  "callbacks (s\<lparr>boundaryError := e\<rparr>) = callbacks s"
  by (simp_all add: callbacks_def)

lemma callbacks_log [simp]: "callbacks (log p l m s) = callbacks s"
  by (simp add: callbacks_def)

lemma callbacks_createSafeTimeout [simp]: "callbacks (createSafeTimeout k d s) = callbacks s"
  by (cases "isMountedRef s")
     (simp_all add: callbacks_def createSafeTimeout_mounted createSafeTimeout_unmounted)

lemma filter_callback_clear [simp]: "filter is_callback (map ClearTimeout ts) = []"
  by (induction ts) simp_all

lemma callbacks_clearAllTimers [simp]: "callbacks (clearAllTimers s) = callbacks s"
  by (simp add: callbacks_def)

lemma callbacks_update_instance [simp]: "callbacks (update_instance k f s) = callbacks s"
  by (simp add: callbacks_def)

lemma callbacks_settle [simp]: "callbacks (settle k g s) = callbacks s"
  by (simp add: callbacks_def)

lemma callbacks_tryImport [simp]: "callbacks (tryImport p k s) = callbacks s"
  by (simp add: tryImport_def) (simp add: callbacks_def)

lemma callbacks_onFulfilled [simp]: "callbacks (onFulfilled p k v s) = callbacks s"
  by (simp add: callbacks_def)

lemma callbacks_onRejected [simp]: "callbacks (onRejected p k e s) = callbacks s"
  by (simp add: onRejected_def Let_def split: reason.splits)

lemma callbacks_landed [simp]: "callbacks (landed k s) = callbacks s"
  by (simp add: callbacks_def)

lemma callbacks_useMemo_factory [simp]: "callbacks (useMemo_factory p s) = callbacks s"
  by (simp add: useMemo_factory_def)

lemma callbacks_lazy_init [simp]: "callbacks (lazy_init p s) = callbacks s"
  by (simp add: lazy_init_def executor_def)

lemma callbacks_apply_update [simp]: "callbacks (apply_update p u s) = callbacks s"
  by (cases u) (simp_all add: apply_update_def Let_def)

lemma callbacks_apply_updates [simp]:
  "callbacks (foldl (\<lambda>t u. apply_update p u t) s us) = callbacks s"
  by (induction us arbitrary: s) simp_all

lemma callbacks_fire [simp]: "callbacks (fire p t s) = callbacks s"
  by (simp add: fire_def timeout_handler_def Let_def split: option.splits)

lemma callbacks_unmount [simp]: "callbacks (unmount p s) = callbacks s"
  by (simp add: unmount_def mounted_effect_cleanup_def)

lemma handleReset_trace:
  "trace (handleReset p s) =
     trace s @ (if verbose p then [Console Info RetryingLoading, Console Info Forcing] else [])
       @ map ClearTimeout (timersRef s) @ [SetRetryKey, SetMountKey]
       @ (if onRetry p then [OnRetry] else [])"
  by (simp add: handleReset_def retryLazyComponent_def setRetryKey_def setMountKey_def Let_def)

lemma callbacks_handleReset:
  "callbacks (handleReset p s) = callbacks s @ (if onRetry p then [OnRetry] else [])"
  by (simp add: callbacks_def handleReset_trace)

lemma handleError_trace:
  "trace (handleError p e c s) =
     trace s @ (if verbose p then [Console Err (LazyLoadError e), Console Err (ComponentStack c)] else [])
       @ (if onError p then [OnError e c] else [])"
  by (simp add: handleError_def Let_def)

lemma callbacks_handleError:
  "callbacks (handleError p e c s) = callbacks s @ (if onError p then [OnError e c] else [])"
  by (simp add: callbacks_def handleError_trace)

lemma callbacks_boundary_catches:
  "callbacks (boundary_catches p e s) =
     callbacks s @ (if onError p then [OnError e (reactStack s)] else [])"
  by (simp add: boundary_catches_def callbacks_handleError)

lemma callbacks_attempt_steps:
  "callbacks (step p (Fulfil k v) s) = callbacks s"
  "callbacks (step p (Fail k e) s) = callbacks s"
  "callbacks (step p (TimerFires t) s) = callbacks s"
  "callbacks (step p Unmount s) = callbacks s"
  by (simp_all add: step_def)

section \<open>What a render does\<close>

lemma no_update_queued: "queued s = [] \<Longrightarrow> s\<lparr>queued := []\<rparr> = s"
  by (cases s) simp

lemma render_with_idle:
  "queued s = [] \<Longrightarrow>
     render_with p False th s =
       componentDidUpdate p (boundaryError s \<noteq> None) False (render_children p th s)"
  by (simp add: render_with_def Let_def no_update_queued)

lemma render_pending:
  "showing k s \<Longrightarrow> promise (instances s ! k) = Pending \<Longrightarrow> render p s = s"
  by (simp add: showing_def render_def render_with_idle render_children_def componentDidUpdate_def)

lemma render_resolved:
  "showing k s \<Longrightarrow> promise (instances s ! k) = Resolved v \<Longrightarrow> render p s = s"
  by (simp add: showing_def render_def render_with_idle render_children_def componentDidUpdate_def)

lemma render_rejected:
  "showing k s \<Longrightarrow> promise (instances s ! k) = Rejected f \<Longrightarrow>
     render p s = boundary_catches p f s"
  by (simp add: showing_def render_def render_with_idle render_children_def componentDidUpdate_def)

lemma render_child_throws:
  "showing k s \<Longrightarrow> promise (instances s ! k) = Resolved v \<Longrightarrow>
     render_with p False (Some x) s = boundary_catches p (Thrown x) s"
  by (simp add: showing_def render_with_idle render_children_def componentDidUpdate_def)

lemma render_error_view:
  "boundaryError s = Some f \<Longrightarrow> queued s = [] \<Longrightarrow> render p s = s"
  by (simp add: render_def render_with_idle render_children_def componentDidUpdate_def)

lemma renders_error_view:
  "isMountedRef s \<Longrightarrow> boundaryError s = Some f \<Longrightarrow> queued s = [] \<Longrightarrow>
     exec p (replicate n Render) s = s"
proof (induction n)
  case 0
  show ?case by (simp add: exec_def)
next
  case (Suc n)
  have "step p Render s = s"
    using Suc.prems by (simp add: step_def render_error_view)
  then have "exec p (replicate (Suc n) Render) s = exec p (replicate n Render) s"
    by (simp add: exec_def)
  with Suc show ?case by simp
qed

lemma captured_once:
  assumes sh: "showing k s" and rej: "promise (instances s ! k) = Rejected f"
  shows "exec p (replicate (Suc n) Render) s = boundary_catches p f s"
proof -
  have m: "isMountedRef s" and q: "queued s = []"
    using sh by (simp_all add: showing_def)
  have first: "step p Render s = boundary_catches p f s"
    using m render_rejected [OF sh rej] by (simp add: step_def)
  have "exec p (replicate (Suc n) Render) s = exec p (replicate n Render) (boundary_catches p f s)"
    using first by (simp add: exec_def)
  also have "\<dots> = boundary_catches p f s"
    by (rule renders_error_view [where f = f]) (simp_all add: m q)
  finally show ?thesis .
qed

lemma consumption_failure_captured_once:
  assumes sh: "showing k s" and res: "promise (instances s ! k) = Resolved v"
  shows "exec p (ChildThrows x # replicate n Render) s = boundary_catches p (Thrown x) s"
proof -
  have m: "isMountedRef s" and q: "queued s = []"
    using sh by (simp_all add: showing_def)
  have first: "step p (ChildThrows x) s = boundary_catches p (Thrown x) s"
    using m render_child_throws [OF sh res] by (simp add: step_def)
  have "exec p (ChildThrows x # replicate n Render) s
      = exec p (replicate n Render) (boundary_catches p (Thrown x) s)"
    using first by (simp add: exec_def)
  also have "\<dots> = boundary_catches p (Thrown x) s"
    by (rule renders_error_view [where f = "Thrown x"]) (simp_all add: m q)
  finally show ?thesis .
qed

section \<open>Running the first instance\<close>



lemma awaiting_mount: "awaiting p 0 (mount p)"
  by (simp add: awaiting_def mount_def render_children_def lazy_init_def executor_def
      tryImport_def useMemo_factory_def invocations_def delays_def callbacks_def)

lemma awaiting_awaited: "awaiting p j s \<Longrightarrow> awaited 0 s \<and> invocations s - 1 = j"
  by (simp add: awaiting_def awaited_def)

lemma fail_then_retry:
  assumes a: "awaiting p j s" and more: "int (Suc j) < retries p"
  shows "\<not> awaited 0 (step p (Fail 0 (Reason e)) s)"
    and "window_timers (step p (Fail 0 (Reason e)) s) = [(next_timer s, 0)]"
    and "awaiting p (Suc j) (step p (TimerFires (next_timer s)) (step p (Fail 0 (Reason e)) s))"
  using a more
  by (simp_all add: awaiting_def step_def awaited_def landed_def onRejected_def Let_def
      createSafeTimeout_def invocations_def delays_def fire_def timeout_handler_def tryImport_def
      callbacks_def)

lemma fail_for_good:
  assumes a: "awaiting p j s" and last: "retries p \<le> int (Suc j)"
  shows "\<not> awaited 0 (step p (Fail 0 (Reason e)) s)"
    and "window_timers (step p (Fail 0 (Reason e)) s) = []"
    and "timersRef (step p (Fail 0 (Reason e)) s) = []"
    and "instances (step p (Fail 0 (Reason e)) s) =
      [\<lparr>attempts = Suc j, currentAttemptCancelled = False, promise = Rejected (Thrown e), inflight = 0\<rparr>]"
    and "invocations (step p (Fail 0 (Reason e)) s) = Suc j"
    and "delays (step p (Fail 0 (Reason e)) s) = map (times (retryDelay p)) [1..<Suc j]"
    and "showing 0 (step p (Fail 0 (Reason e)) s)"
    and "callbacks (step p (Fail 0 (Reason e)) s) = []"
  using a last
  by (simp_all add: awaiting_def step_def awaited_def landed_def onRejected_def Let_def
      invocations_def delays_def reject_def showing_def callbacks_def)

lemma fail_nullish:
  assumes a: "awaiting p j s"
  shows "\<not> awaited 0 (step p (Fail 0 Nullish) s)"
    and "window_timers (step p (Fail 0 Nullish) s) = []"
    and "instances (step p (Fail 0 Nullish) s) =
      [\<lparr>attempts = Suc j, currentAttemptCancelled = False, promise = Pending, inflight = 0\<rparr>]"
    and "invocations (step p (Fail 0 Nullish) s) = Suc j"
    and "showing 0 (step p (Fail 0 Nullish) s)"
    and "callbacks (step p (Fail 0 Nullish) s) = []"
  using a
  by (simp_all add: awaiting_def step_def awaited_def landed_def onRejected_def Let_def
      invocations_def showing_def callbacks_def)


lemma drive_fail_then_retry:
  assumes a: "awaiting p j s" and f: "loader j = Fails (Reason e)"
    and more: "int (Suc j) < retries p"
  shows "\<exists>s'. awaiting p (Suc j) s' \<and>
           (\<forall>n. drive (Suc (Suc n)) p loader s = drive n p loader s')"
proof -
  let ?s1 = "step p (Fail 0 (Reason e)) s"
  let ?s2 = "step p (TimerFires (next_timer s)) ?s1"
  note r = fail_then_retry [OF a more, of e]
  have "drive (Suc (Suc n)) p loader s = drive n p loader ?s2" for n
  proof -
    have "drive (Suc (Suc n)) p loader s = drive (Suc n) p loader ?s1"
      using awaiting_awaited [OF a] f by simp
    also have "\<dots> = drive n p loader ?s2"
      using r(1) r(2) by simp
    finally show ?thesis .
  qed
  with r(3) show ?thesis by blast
qed

lemma drive_failures:
  assumes fails: "\<forall>i < m. \<exists>e. loader i = Fails (Reason e)"
    and bound: "int m < retries p \<or> m = 0"
  shows "d = m - j \<Longrightarrow> j \<le> m \<Longrightarrow> awaiting p j s \<Longrightarrow>
     \<exists>s'. awaiting p m s' \<and> (\<forall>n. drive (2 * (m - j) + n) p loader s = drive n p loader s')"
proof (induction d arbitrary: j s)
  case 0
  then have "j = m" by simp
  with "0.prems"(3) show ?case by auto
next
  case (Suc d)
  then have lt: "j < m" and d: "d = m - Suc j" and le: "Suc j \<le> m"
    by simp_all
  from fails lt obtain e where f: "loader j = Fails (Reason e)"
    by blast
  from bound lt le have more: "int (Suc j) < retries p"
    by auto
  from drive_fail_then_retry [where loader = loader and e = e, OF Suc.prems(3) f more]
  obtain s1 where a1: "awaiting p (Suc j) s1"
    and d1: "\<And>n. drive (Suc (Suc n)) p loader s = drive n p loader s1"
    by blast
  from Suc.IH [OF d le a1]
  obtain s' where a': "awaiting p m s'"
    and d': "\<And>n. drive (2 * (m - Suc j) + n) p loader s1 = drive n p loader s'"
    by blast
  have "drive (2 * (m - j) + n) p loader s = drive n p loader s'" for n
  proof -
    have "2 * (m - j) + n = Suc (Suc (2 * (m - Suc j) + n))"
      using lt by simp
    then show ?thesis
      using d1 d' by simp
  qed
  with a' show ?case by blast
qed

lemma drive_last_failure:
  assumes a: "awaiting p j s" and f: "loader j = Fails (Reason e)"
    and last: "retries p \<le> int (Suc j)"
  shows "drive (Suc (Suc n)) p loader s = Some (step p (Fail 0 (Reason e)) s)"
proof -
  note r = fail_for_good [OF a last, of e]
  have "drive (Suc (Suc n)) p loader s = drive (Suc n) p loader (step p (Fail 0 (Reason e)) s)"
    using awaiting_awaited [OF a] f by simp
  also have "\<dots> = Some (step p (Fail 0 (Reason e)) s)"
    using r(1) r(2) by simp
  finally show ?thesis .
qed


lemma onRejected_promise:
  assumes "isMountedRef s" "k < length (instances s)" "\<not> currentAttemptCancelled (instances s ! k)"
  shows "promise (instances (onRejected p k (Reason x) s) ! k) =
     (if retries p \<le> int (Suc (attempts (instances s ! k)))
      then reject (Thrown x) (promise (instances s ! k))
      else promise (instances s ! k))"
    and "promise (instances (onRejected p k Nullish s) ! k) = promise (instances s ! k)"
  using assms by (simp_all add: onRejected_def Let_def)

section \<open>The claims\<close>

subsection \<open>C1: a loader that always fails\<close>

text \<open>
  C1, as the claim states it, fails for \<^verbatim>\<open>retries = 0\<close>: the loader is called once, not
  zero times, before the handle is rejected with the error of that call. And a loader
  whose promise is rejected with \<^verbatim>\<open>undefined\<close> is called once, whatever \<^verbatim>\<open>retries\<close> is: the
  \<^verbatim>\<open>.catch\<close> handler stops at \<^verbatim>\<open>error.message\<close> (line 150), so no timeout is set and the
  handle stays pending.
\<close>

theorem loader_called_once_with_zero_retries:
  "retries no_retry_props = 0
   \<and> map_option invocations (drive 2 no_retry_props always_fails (mount no_retry_props)) = Some 1
   \<and> map_option handles (drive 2 no_retry_props always_fails (mount no_retry_props))
       = Some [Rejected (Thrown 0)]
   \<and> retries default_props = 3
   \<and> map_option invocations
        (drive 2 default_props (\<lambda>j. Fails Nullish) (mount default_props :: (nat, nat) state)) = Some 1
   \<and> map_option delays
        (drive 2 default_props (\<lambda>j. Fails Nullish) (mount default_props :: (nat, nat) state)) = Some []
   \<and> map_option handles
        (drive 2 default_props (\<lambda>j. Fails Nullish) (mount default_props :: (nat, nat) state))
       = Some [Pending]"
  by code_simp


text \<open>
  C1, amended. For every value of \<^verbatim>\<open>retries\<close> and a loader whose every call fails with a
  reason other than \<^verbatim>\<open>undefined\<close> and \<^verbatim>\<open>null\<close> (call number \<open>j\<close> with the error \<open>e j\<close>), the
  run of a mounted component ends, the loader has been called exactly \<open>max 1 retries\<close>
  times, the handle is rejected with the error of the last call, no timeout is left
  pending, and the delays set are the products of \<open>retryDelay\<close> and 1, 2, ... up to one
  less than the number of calls. For \<^verbatim>\<open>retries\<close> at most 1 the first failure is final and no
  timeout is set.
\<close>

theorem always_failing_loader:
  "\<exists>s'. (\<forall>n. drive (2 * max 1 (nat (retries p)) + n) p (\<lambda>j. Fails (Reason (e j))) (mount p) = Some s')
     \<and> invocations s' = max 1 (nat (retries p))
     \<and> handles s' = [Rejected (Thrown (e (max 1 (nat (retries p)) - 1)))]
     \<and> window_timers s' = []
     \<and> delays s' = map (times (retryDelay p)) [1..<max 1 (nat (retries p))]
     \<and> (retries p \<le> 1 \<longrightarrow>
          invocations s' = 1 \<and> delays s' = [] \<and> handles s' = [Rejected (Thrown (e 0))])"
proof -
  define N where "N = max 1 (nat (retries p))"
  define m where "m = N - 1"
  let ?loader = "\<lambda>j. Fails (Reason (e j)) :: ('a, 'b) outcome"
  have N: "N = Suc m" "retries p \<le> int (Suc m)" "int m < retries p \<or> m = 0"
    by (auto simp: N_def m_def)
  have "\<forall>i < m. \<exists>x. ?loader i = Fails (Reason x)"
    by simp
  from drive_failures [where loader = ?loader and j = 0 and s = "mount p :: ('a, 'b) state", OF this N(3) _ _ awaiting_mount]
  obtain s0 :: "('a, 'b) state" where a0: "awaiting p m s0"
    and d0: "\<And>n. drive (2 * m + n) p ?loader (mount p) = drive n p ?loader s0"
    by auto
  let ?s' = "step p (Fail 0 (Reason (e m))) s0"
  note fin = fail_for_good [OF a0 N(2), of "e m"]
  have run: "drive (2 * N + n) p ?loader (mount p) = Some ?s'" for n
  proof -
    have "2 * N + n = 2 * m + Suc (Suc n)"
      by (simp add: N(1))
    then have "drive (2 * N + n) p ?loader (mount p) = drive (2 * m + Suc (Suc n)) p ?loader (mount p)"
      by (simp only:)
    also have "\<dots> = drive (Suc (Suc n)) p ?loader s0"
      by (rule d0)
    also have "\<dots> = Some ?s'"
      by (rule drive_last_failure [OF a0 _ N(2)]) simp
    finally show ?thesis .
  qed
  have h: "handles ?s' = [Rejected (Thrown (e (N - 1)))]"
    using fin(4) by (simp add: handles_def m_def)
  have small: "retries p \<le> 1 \<Longrightarrow> N = 1"
    by (simp add: N_def)
  have "(\<forall>n. drive (2 * N + n) p ?loader (mount p) = Some ?s')
     \<and> invocations ?s' = N
     \<and> handles ?s' = [Rejected (Thrown (e (N - 1)))]
     \<and> window_timers ?s' = []
     \<and> delays ?s' = map (times (retryDelay p)) [1..<N]
     \<and> (retries p \<le> 1 \<longrightarrow>
          invocations ?s' = 1 \<and> delays ?s' = [] \<and> handles ?s' = [Rejected (Thrown (e 0))])"
    using run fin(2) fin(5) fin(6) h small by (auto simp: N(1))
  then show ?thesis
    unfolding N_def by (rule exI)
qed

theorem always_failing_loader_witness:
  "map_option invocations (drive 6 default_props always_fails (mount default_props)) = Some 3
   \<and> map_option handles (drive 6 default_props always_fails (mount default_props))
       = Some [Rejected (Thrown 2)]
   \<and> retries no_retry_props \<le> 1
   \<and> map_option invocations (drive 2 no_retry_props always_fails (mount no_retry_props)) = Some 1
   \<and> map_option delays (drive 2 no_retry_props always_fails (mount no_retry_props)) = Some []"
proof -
  have af: "always_fails = (\<lambda>j. Fails (Reason (id j)))"
    by (rule ext) (simp add: always_fails_def)
  have r3: "max 1 (nat (retries default_props)) = 3"
    by (simp add: default_props_def)
  have r0: "max 1 (nat (retries no_retry_props)) = 1" "retries no_retry_props \<le> 1"
    by (simp_all add: no_retry_props_def)
  from always_failing_loader [where p = default_props and e = "id :: nat \<Rightarrow> nat"]
  obtain s3 :: "(nat, nat) state"
    where "drive (2 * 3 + 0) default_props always_fails (mount default_props) = Some s3"
      and "invocations s3 = 3" and "handles s3 = [Rejected (Thrown (id (3 - 1)))]"
    unfolding r3 af by blast
  then have three:
    "map_option invocations (drive 6 default_props always_fails (mount default_props)) = Some 3"
    "map_option handles (drive 6 default_props always_fails (mount default_props))
       = Some [Rejected (Thrown 2)]"
    by simp_all
  from always_failing_loader [where p = no_retry_props and e = "id :: nat \<Rightarrow> nat"] r0(2)
  obtain s0 :: "(nat, nat) state"
    where "drive (2 * 1 + 0) no_retry_props always_fails (mount no_retry_props) = Some s0"
      and "invocations s0 = 1" and "delays s0 = []"
    unfolding r0(1) af by blast
  then have zero:
    "map_option invocations (drive 2 no_retry_props always_fails (mount no_retry_props)) = Some 1"
    "map_option delays (drive 2 no_retry_props always_fails (mount no_retry_props)) = Some []"
    by simp_all
  from three r0(2) zero show ?thesis
    by (intro conjI)
qed

subsection \<open>C2: an attempt that settles after teardown\<close>

text \<open>
  C2, as the claim states it, fails: the component is mounted with the defaults, it is
  unmounted while the first attempt is pending, and the attempt then fails. The handle
  was pending and is now rejected, with the cancellation error of line 142.
\<close>

theorem teardown_failure_settles_handle:
  "awaited 0 (exec default_props [Unmount] (mount default_props :: (nat, nat) state))
   \<and> promise (instances (exec default_props [Unmount] (mount default_props :: (nat, nat) state)) ! 0) = Pending
   \<and> promise (instances (exec default_props [Unmount, Fail 0 (Reason 7)] (mount default_props :: (nat, nat) state)) ! 0)
       = Rejected ImportCancelled"
  by code_simp


text \<open>
  C2, amended. When the component is unmounted while an attempt is pending, the
  attempt's later success changes nothing at all. Its later failure invokes no callback,
  logs nothing, sets no timeout, queues no update and leaves every attempt counter as it
  is; its one effect is \<open>reject\<close> on the instance's promise with the cancellation error,
  which settles the handle when it is still pending.
\<close>

theorem teardown_discards_outcome:
  "onFulfilled p k v (unmount p s) = unmount p s
   \<and> onRejected p k e (unmount p s) = settle k (reject ImportCancelled) (unmount p s)
   \<and> trace (onRejected p k e (unmount p s)) = trace (unmount p s)
   \<and> window_timers (onRejected p k e (unmount p s)) = window_timers (unmount p s)
   \<and> timersRef (onRejected p k e (unmount p s)) = []
   \<and> queued (onRejected p k e (unmount p s)) = queued (unmount p s)
   \<and> map attempts (instances (onRejected p k e (unmount p s))) = map attempts (instances (unmount p s))
   \<and> map inflight (instances (onRejected p k e (unmount p s))) = map inflight (instances (unmount p s))"
proof -
  have u: "\<not> isMountedRef (unmount p s)"
    by simp
  have r: "onRejected p k e (unmount p s) = settle k (reject ImportCancelled) (unmount p s)"
    using u by (rule onRejected_unmounted)
  have "map attempts ((instances s)[k := (\<lambda>i. i\<lparr>promise := reject ImportCancelled (promise i)\<rparr>) (instances s ! k)])
      = map attempts (instances s)"
    by (rule map_update_same) simp
  moreover have "map inflight ((instances s)[k := (\<lambda>i. i\<lparr>promise := reject ImportCancelled (promise i)\<rparr>) (instances s ! k)])
      = map inflight (instances s)"
    by (rule map_update_same) simp
  ultimately show ?thesis
    using u by (simp add: onFulfilled_unmounted r)
qed

theorem teardown_discards_outcome_witness:
  "onFulfilled default_props 0 (5::nat) (unmount default_props (mount default_props :: (nat, nat) state))
     = unmount default_props (mount default_props)
   \<and> trace (onRejected default_props 0 (Reason (7::nat)) (unmount default_props (mount default_props :: (nat, nat) state)))
     = [ImportFn 0]
   \<and> promise (instances (onRejected default_props 0 (Reason (7::nat)) (unmount default_props (mount default_props :: (nat, nat) state))) ! 0)
     = Rejected ImportCancelled"
proof -
  let ?U = "unmount default_props (mount default_props :: (nat, nat) state)"
  note at_U = teardown_discards_outcome [where p = default_props and k = 0 and v = "5::nat"
      and e = "Reason (7::nat)" and s = "mount default_props :: (nat, nat) state"]
  have t: "trace ?U = [ImportFn 0]"
    by code_simp
  have q: "promise (instances (settle 0 (reject ImportCancelled) ?U) ! 0) = Rejected ImportCancelled"
    by code_simp
  from at_U have "onFulfilled default_props 0 (5::nat) ?U = ?U"
    by (rule conjunct1)
  moreover from at_U t have "trace (onRejected default_props 0 (Reason (7::nat)) ?U) = [ImportFn 0]"
    by simp
  moreover from at_U q have "promise (instances (onRejected default_props 0 (Reason (7::nat)) ?U) ! 0)
     = Rejected ImportCancelled"
    by simp
  ultimately show ?thesis
    by (intro conjI)
qed

subsection \<open>C3: the rekey and the old instance\<close>

text \<open>
  C3 does not hold of the code: no sequence of events ever sets the cancellation flag
  of an instance. The component is mounted with the defaults and reset while the first
  attempt is pending; after the render the old instance and the new one are both waiting
  for the loader, both with the flag unset. When the old attempt then fails, the old
  instance counts the failure and sets a retry timer, and when the timer fires it calls
  the loader again.
\<close>

theorem rekey_leaves_old_instance_running:
  "uncancelled (exec p evs (mount p))
   \<and> flags (exec default_props [Reset, Render] (mount default_props :: (nat, nat) state))
       = [False, False]
   \<and> map inflight (instances (exec default_props [Reset, Render]
         (mount default_props :: (nat, nat) state))) = [1, 1]
   \<and> map attempts (instances (exec default_props [Reset, Render, Fail 0 (Reason 7)]
         (mount default_props :: (nat, nat) state))) = [1, 0]
   \<and> window_timers (exec default_props [Reset, Render, Fail 0 (Reason 7)]
         (mount default_props :: (nat, nat) state)) = [(1, 0)]
   \<and> trace (exec default_props [Reset, Render, Fail 0 (Reason 7), TimerFires 1]
         (mount default_props :: (nat, nat) state))
       = [ImportFn 0, SetRetryKey, SetMountKey, ImportFn 1, SetTimeout 1 0 (Finite 1000), ImportFn 0]
   \<and> handles (exec default_props [Reset, Render, Fail 0 (Reason 7), TimerFires 1]
         (mount default_props :: (nat, nat) state)) = [Pending, Pending]"
proof -
  have "uncancelled (exec p evs (mount p))"
    by (rule uncancelled_exec) (rule uncancelled_mount)
  moreover have "flags (exec default_props [Reset, Render] (mount default_props :: (nat, nat) state))
       = [False, False]"
    by code_simp
  moreover have "map inflight (instances (exec default_props [Reset, Render]
         (mount default_props :: (nat, nat) state))) = [1, 1]"
    by code_simp
  moreover have "map attempts (instances (exec default_props [Reset, Render, Fail 0 (Reason 7)]
         (mount default_props :: (nat, nat) state))) = [1, 0]"
    by code_simp
  moreover have "window_timers (exec default_props [Reset, Render, Fail 0 (Reason 7)]
         (mount default_props :: (nat, nat) state)) = [(1, 0)]"
    by code_simp
  moreover have "trace (exec default_props [Reset, Render, Fail 0 (Reason 7), TimerFires 1]
         (mount default_props :: (nat, nat) state))
       = [ImportFn 0, SetRetryKey, SetMountKey, ImportFn 1, SetTimeout 1 0 (Finite 1000), ImportFn 0]"
    by code_simp
  moreover have "handles (exec default_props [Reset, Render, Fail 0 (Reason 7), TimerFires 1]
         (mount default_props :: (nat, nat) state)) = [Pending, Pending]"
    by code_simp
  ultimately show ?thesis
    by (intro conjI)
qed

subsection \<open>C4: how often onRetry is called\<close>

text \<open>
  C4 does not hold of the code. The reset trigger of the error view is \<open>handleRetry\<close>,
  which calls \<open>handleReset\<close> and then the boundary's \<^verbatim>\<open>resetErrorBoundary\<close>; the boundary
  was given \<^verbatim>\<open>onReset={handleReset}\<close> (line 279). With a boundary whose reset calls its
  \<^verbatim>\<open>onReset\<close>, one use of the trigger after the retries are exhausted calls \<open>onRetry\<close>
  twice, and the render that follows moves both keys to 2; so does the run in which the
  boundary has captured the third failure, the trigger is used once and the component
  renders (the events \<open>Render\<close>, \<open>Retry\<close>, \<open>Render\<close>). The second part: reset,
  render, reset, render leaves the instance of the first reset waiting for the loader
  beside the instance of the second; when its attempt fails it sets a retry timer and goes
  on.
\<close>

theorem retry_trigger_resets_twice:
  "callbacks (handleRetry observed_props (handleReset observed_props) exhausted)
       = [OnRetry, OnRetry]
   \<and> queued (handleRetry observed_props (handleReset observed_props) exhausted)
       = [IncRetryKey, IncMountKey, IncRetryKey, IncMountKey]
   \<and> retryKey (render observed_props
         (handleRetry observed_props (handleReset observed_props) exhausted)) = 2
   \<and> mountKey (render observed_props
         (handleRetry observed_props (handleReset observed_props) exhausted)) = 2
   \<and> handles (exec observed_props [Reset, Render, Reset, Render] exhausted)
       = [Rejected (Thrown 3), Pending, Pending]
   \<and> map inflight (instances (exec observed_props [Reset, Render, Reset, Render] exhausted))
       = [0, 1, 1]
   \<and> window_timers (exec observed_props [Reset, Render, Reset, Render, Fail 1 (Reason 9)] exhausted)
       = [(3, 1)]
   \<and> map inflight (instances
         (exec observed_props [Reset, Render, Reset, Render, Fail 1 (Reason 9), TimerFires 3] exhausted))
       = [0, 1, 1]
   \<and> callbacks (exec observed_props [Render] exhausted) = [OnError (Thrown 3) []]
   \<and> callbacks (exec observed_props [Render, Retry, Render] exhausted)
       = [OnError (Thrown 3) [], OnRetry, OnRetry]
   \<and> retryKey (exec observed_props [Render, Retry, Render] exhausted) = 2
   \<and> mountKey (exec observed_props [Render, Retry, Render] exhausted) = 2"
  by code_simp

subsection \<open>C5: the order of a manual reset\<close>





subsection \<open>C6: linear backoff\<close>





subsection \<open>C7: when onError is called\<close>

text \<open>
  C7 does not hold of the code. With \<^verbatim>\<open>retries = 1\<close> the first failure of the loader is
  the exhausted-retries failure. When the loader's promise is rejected with \<^verbatim>\<open>undefined\<close>,
  the \<^verbatim>\<open>.catch\<close> handler counts the attempt and then throws a \<^verbatim>\<open>TypeError\<close> while it reads
  \<^verbatim>\<open>error.message\<close> (line 150), before the comparison with \<^verbatim>\<open>retries\<close>: \<^verbatim>\<open>reject\<close> is never
  called, no timeout is set, the handle stays pending, the boundary captures nothing in
  any later render, and \<open>onError\<close> is not called at all. The same run with a loader that
  is rejected with the value 7 calls \<open>onError\<close> once, from the render in which the
  boundary captures the rejected handle, and not again in the next render.
\<close>

theorem undefined_rejection_never_reaches_onError:
  "retries single_attempt_props = 1 \<and> onError single_attempt_props
   \<and> handles (exec single_attempt_props [Fail 0 Nullish, Render, Render]
         (mount single_attempt_props :: (nat, nat) state)) = [Pending]
   \<and> map attempts (instances (exec single_attempt_props [Fail 0 Nullish, Render, Render]
         (mount single_attempt_props :: (nat, nat) state))) = [1]
   \<and> map inflight (instances (exec single_attempt_props [Fail 0 Nullish, Render, Render]
         (mount single_attempt_props :: (nat, nat) state))) = [0]
   \<and> window_timers (exec single_attempt_props [Fail 0 Nullish, Render, Render]
         (mount single_attempt_props :: (nat, nat) state)) = []
   \<and> boundaryError (exec single_attempt_props [Fail 0 Nullish, Render, Render]
         (mount single_attempt_props :: (nat, nat) state)) = None
   \<and> callbacks (exec single_attempt_props [Fail 0 Nullish, Render, Render]
         (mount single_attempt_props :: (nat, nat) state)) = []
   \<and> handles (exec single_attempt_props [Fail 0 (Reason 7), Render, Render]
         (mount single_attempt_props :: (nat, nat) state)) = [Rejected (Thrown 7)]
   \<and> callbacks (exec single_attempt_props [Fail 0 (Reason 7)]
         (mount single_attempt_props :: (nat, nat) state)) = []
   \<and> callbacks (exec single_attempt_props [Fail 0 (Reason 7), Render]
         (mount single_attempt_props :: (nat, nat) state)) = [OnError (Thrown 7) []]
   \<and> callbacks (exec single_attempt_props [Fail 0 (Reason 7), Render, Render]
         (mount single_attempt_props :: (nat, nat) state)) = [OnError (Thrown 7) []]"
  by code_simp

subsection \<open>C8: the fallback views\<close>

text \<open>
  C8. Both resolvers dispatch on the shape of the override. Unset: the built-in view.
  An element: for the loading view the element itself; for the error view the element
  cloned with the error props. A component function: an element of it, with no props
  for the loading view and with the error props for the error view. The loading
  view never gets props. The error props are the error and a reset trigger, and calling
  the trigger runs \<open>handleReset\<close> and then the boundary's own reset.
\<close>

theorem fallback_view_resolution:
  "(renderLoadingComponent Unset :: ('c, 'x, ('v, 'e) state) view) = DefaultLoadingAnimation
   \<and> (renderLoadingComponent (Instance el) :: ('c, 'x, ('v, 'e) state) view) = AsIs el
   \<and> (renderLoadingComponent (Factory f) :: ('c, 'x, ('v, 'e) state) view) = Create f NoProps
   \<and> props_of (renderLoadingComponent (oc :: 'c override) :: ('c, 'x, ('v, 'e) state) view) = NoProps
   \<and> ErrorFallback p Unset (x :: 'x) (reb :: ('v, 'e) state \<Rightarrow> ('v, 'e) state) = DefaultErrorComponent (ErrorProps x (handleRetry p reb))
   \<and> ErrorFallback p (Instance el) x reb = Cloned el (ErrorProps x (handleRetry p reb))
   \<and> ErrorFallback p (Factory f) x reb = Create f (ErrorProps x (handleRetry p reb))
   \<and> error_shown (props_of (ErrorFallback p Unset x reb)) = Some x
   \<and> error_shown (props_of (ErrorFallback p (Instance el) x reb)) = Some x
   \<and> error_shown (props_of (ErrorFallback p (Factory f) x reb)) = Some x
   \<and> pull_trigger (props_of (ErrorFallback p Unset x reb)) s = reb (handleReset p s)
   \<and> pull_trigger (props_of (ErrorFallback p (Instance el) x reb)) s = reb (handleReset p s)
   \<and> pull_trigger (props_of (ErrorFallback p (Factory f) x reb)) s = reb (handleReset p s)"
proof -
  have "props_of (renderLoadingComponent oc :: ('c, 'x, ('v, 'e) state) view) = NoProps"
    by (cases oc) (simp_all add: renderLoadingComponent_def)
  then show ?thesis
    by (simp add: renderLoadingComponent_def ErrorFallback_def Let_def handleRetry_def)
qed

theorem fallback_view_resolution_witness:
  "error_shown (props_of (ErrorFallback observed_props (Factory ''CustomError'') (Thrown (3::nat))
      (boundary_only :: (nat, nat) state \<Rightarrow> (nat, nat) state))) = Some (Thrown 3)
   \<and> callbacks (pull_trigger (props_of
        (ErrorFallback observed_props (Factory ''CustomError'') (Thrown (3::nat)) boundary_only))
        exhausted) = [OnRetry]
   \<and> timersRef (pull_trigger (props_of
        (ErrorFallback observed_props (Instance ''<CustomError />'') (Thrown (3::nat)) boundary_only))
        one_failure) = []"
proof -
  note at_end = fallback_view_resolution [where p = observed_props and f = "''CustomError''"
      and el = "''<CustomError />''" and x = "Thrown (3::nat)"
      and reb = "boundary_only :: (nat, nat) state \<Rightarrow> (nat, nat) state" and s = exhausted
      and oc = Unset]
  note at_one = fallback_view_resolution [where p = observed_props and f = "''CustomError''"
      and el = "''<CustomError />''" and x = "Thrown (3::nat)"
      and reb = "boundary_only :: (nat, nat) state \<Rightarrow> (nat, nat) state" and s = one_failure
      and oc = Unset]
  have c: "callbacks (boundary_only (handleReset observed_props exhausted)) = [OnRetry]"
    by code_simp
  from at_end
  have e: "error_shown (props_of (ErrorFallback observed_props (Factory ''CustomError'')
      (Thrown (3::nat)) (boundary_only :: (nat, nat) state \<Rightarrow> (nat, nat) state))) = Some (Thrown 3)"
    by (elim conjE)
  from at_end
  have "pull_trigger (props_of
        (ErrorFallback observed_props (Factory ''CustomError'') (Thrown (3::nat)) boundary_only))
        exhausted = boundary_only (handleReset observed_props exhausted)"
    by (elim conjE)
  with c have r: "callbacks (pull_trigger (props_of
        (ErrorFallback observed_props (Factory ''CustomError'') (Thrown (3::nat)) boundary_only))
        exhausted) = [OnRetry]"
    by (simp only:)
  from at_one
  have "pull_trigger (props_of
        (ErrorFallback observed_props (Instance ''<CustomError />'') (Thrown (3::nat)) boundary_only))
        one_failure = boundary_only (handleReset observed_props one_failure)"
    by (elim conjE)
  then have t: "timersRef (pull_trigger (props_of
        (ErrorFallback observed_props (Instance ''<CustomError />'') (Thrown (3::nat)) boundary_only))
        one_failure) = []"
    by (simp add: boundary_only_def)
  from e r t show ?thesis
    by (intro conjI)
qed

subsection \<open>C9: the handle settles at most once\<close>

text \<open>
  C9. The handle of a loader instance settles at most once. A pending promise becomes
  resolved or rejected by its first settlement; once the promise of an instance is
  settled, no sequence of events changes it, and \<open>resolve\<close> and \<open>reject\<close> on a settled
  promise do nothing.
\<close>

theorem handle_settles_once:
  "(k < length (instances (s :: ('v, 'e) state)) \<and> promise (instances s ! k) \<noteq> Pending \<longrightarrow>
      promise (instances (exec p evs s) ! k) = promise (instances s ! k))
   \<and> resolve v (Pending :: ('v, 'e) promise) = Resolved v
   \<and> reject x (Pending :: ('v, 'e) promise) = Rejected x
   \<and> (q \<noteq> Pending \<longrightarrow> resolve v q = q \<and> reject x q = q)"
proof -
  have "keeps s (exec p evs s)"
    by (rule keeps_exec)
  then have "k < length (instances s) \<and> promise (instances s ! k) \<noteq> Pending \<longrightarrow>
      promise (instances (exec p evs s) ! k) = promise (instances s ! k)"
    by (simp add: keeps_def)
  moreover have "resolve v (Pending :: ('v, 'e) promise) = Resolved v"
    by (simp add: resolve_def)
  moreover have "reject x (Pending :: ('v, 'e) promise) = Rejected x"
    by (simp add: reject_def)
  moreover have "q \<noteq> Pending \<longrightarrow> resolve v q = q \<and> reject x q = q"
    by (simp add: resolve_settled reject_settled)
  ultimately show ?thesis
    by (intro conjI)
qed

theorem handle_settles_once_witness:
  "0 < length (instances (exec default_props [Unmount, Fail 0 (Reason 7)] (mount default_props :: (nat, nat) state)))
   \<and> promise (instances (exec default_props [Unmount, Fail 0 (Reason 7)] (mount default_props :: (nat, nat) state)) ! 0)
       = Rejected ImportCancelled
   \<and> promise (instances (exec default_props [Reset, Render, Fulfil 0 5, Fulfil 1 5]
         (exec default_props [Unmount, Fail 0 (Reason 7)] (mount default_props :: (nat, nat) state))) ! 0)
       = Rejected ImportCancelled
   \<and> resolve (5::nat) (Rejected ImportCancelled :: (nat, nat) promise) = Rejected ImportCancelled
   \<and> reject (Thrown (7::nat)) (Rejected ImportCancelled :: (nat, nat) promise) = Rejected ImportCancelled"
proof -
  let ?S = "exec default_props [Unmount, Fail 0 (Reason (7::nat))] (mount default_props :: (nat, nat) state)"
  note once = handle_settles_once [where s = ?S and k = 0 and p = default_props
      and evs = "[Reset, Render, Fulfil 0 5, Fulfil 1 5]"
      and q = "Rejected ImportCancelled :: (nat, nat) promise"
      and v = "5 :: nat" and x = "Thrown (7 :: nat)"]
  have len: "0 < length (instances ?S)"
    by code_simp
  have rej: "promise (instances ?S ! 0) = Rejected ImportCancelled"
    by code_simp
  from once len rej
  have later: "promise (instances (exec default_props [Reset, Render, Fulfil 0 5, Fulfil 1 5] ?S) ! 0)
      = Rejected ImportCancelled"
    by simp
  from once have "resolve (5::nat) (Rejected ImportCancelled :: (nat, nat) promise) = Rejected ImportCancelled"
    and "reject (Thrown (7::nat)) (Rejected ImportCancelled :: (nat, nat) promise) = Rejected ImportCancelled"
    by simp_all
  with len rej later show ?thesis
    by (intro conjI)
qed

subsection \<open>C10: the timer registry\<close>

text \<open>
  C10. After any sequence of events on a mounted component, the ids in \<open>timersRef\<close> are
  exactly the ids of the host's pending timeouts, so every id of the set stands for a
  timeout that is scheduled and has neither fired nor been cleared. After unmount
  \<open>createSafeTimeout\<close> changes nothing: it sets no timeout and adds no id. The function
  a timeout runs first deletes its own id from the set and calls \<open>tryImport\<close> only when
  \<open>isMountedRef\<close> still holds. \<open>clearAllTimers\<close> leaves the set empty.
\<close>

theorem timer_registry_invariant:
  "set (timersRef (exec p evs (mount p))) = fst ` set (window_timers (exec p evs (mount p)))
   \<and> (\<not> isMountedRef s \<longrightarrow> createSafeTimeout k d s = s)
   \<and> t \<notin> set (timersRef (timeout_handler p t k s))
   \<and> timeout_handler p t k s =
       (if isMountedRef s then tryImport p k (s\<lparr>timersRef := removeAll t (timersRef s)\<rparr>)
        else s\<lparr>timersRef := removeAll t (timersRef s)\<rparr>)
   \<and> timersRef (clearAllTimers s) = []"
proof -
  have "registry_exact (exec p evs (mount p))"
    by (rule registry_exec) (rule registry_mount)
  then have a: "set (timersRef (exec p evs (mount p))) = fst ` set (window_timers (exec p evs (mount p)))"
    by (simp add: registry_exact_def)
  have b: "\<not> isMountedRef s \<longrightarrow> createSafeTimeout k d s = s"
    by (simp add: createSafeTimeout_unmounted)
  have c: "t \<notin> set (timersRef (timeout_handler p t k s))"
    by (simp add: timeout_handler_def Let_def)
  have d: "timeout_handler p t k s =
       (if isMountedRef s then tryImport p k (s\<lparr>timersRef := removeAll t (timersRef s)\<rparr>)
        else s\<lparr>timersRef := removeAll t (timersRef s)\<rparr>)"
    by (simp add: timeout_handler_def Let_def)
  show ?thesis using a b c d by simp
qed

theorem timer_registry_invariant_witness:
  "set (timersRef (exec default_props [Fail 0 (Reason (7::nat))] (mount default_props :: (nat, nat) state))) = {1}
   \<and> fst ` set (window_timers (exec default_props [Fail 0 (Reason 7)] (mount default_props :: (nat, nat) state))) = {1}
   \<and> \<not> isMountedRef (unmount default_props (mount default_props :: (nat, nat) state))
   \<and> createSafeTimeout 0 (Finite 1000) (unmount default_props (mount default_props :: (nat, nat) state))
       = unmount default_props (mount default_props)
   \<and> 1 \<notin> set (timersRef (timeout_handler default_props 1 0
         (exec default_props [Fail 0 (Reason 7)] (mount default_props :: (nat, nat) state))))
   \<and> timersRef (clearAllTimers (exec default_props [Fail 0 (Reason 7)] (mount default_props :: (nat, nat) state))) = []"
proof -
  let ?E = "exec default_props [Fail 0 (Reason (7::nat))] (mount default_props :: (nat, nat) state)"
  let ?U = "unmount default_props (mount default_props :: (nat, nat) state)"
  note at_E = timer_registry_invariant [where p = default_props and evs = "[Fail 0 (Reason (7::nat))]"
        and s = ?E and k = 0 and d = "Finite 1000" and t = 1]
  note at_U = timer_registry_invariant [where p = default_props and evs = "[Fail 0 (Reason (7::nat))]"
        and s = ?U and k = 0 and d = "Finite 1000" and t = 1]
  have u: "\<not> isMountedRef ?U"
    by (simp add: unmount_def mounted_effect_cleanup_def)
  have w: "fst ` set (window_timers ?E) = {1}"
    by code_simp
  from at_E have "set (timersRef ?E) = fst ` set (window_timers ?E)"
    by (rule conjunct1)
  then have a: "set (timersRef ?E) = {1}"
    using w by (rule trans)
  from at_U u have b: "createSafeTimeout 0 (Finite 1000) ?U = ?U"
    by blast
  from at_E have c: "1 \<notin> set (timersRef (timeout_handler default_props 1 0 ?E))"
    by blast
  from at_E have d: "timersRef (clearAllTimers ?E) = []"
    by blast
  from a w u b c d show ?thesis
    by (intro conjI)
qed


end
